theory Spec2Isabelle
  imports Main "HOL-Library.Log_Nat"
begin

section \<open>Python values used by the bot\<close>

text \<open>
  A Python \<open>str\<close> is a sequence of Unicode code points, and \<open>len\<close> counts code points.
  The model keeps exactly that: a string is a list of code point numbers. \<open>asc\<close> turns an
  ASCII literal into such a list.
\<close>

type_synonym pystr = "nat list"

definition asc :: "string \<Rightarrow> pystr" where
  "asc s = map of_char s"

text \<open>
  A Python \<open>float\<close> (and a \<open>numpy.float64\<close>) is an IEEE binary64 value. The model keeps its
  exact value: \<open>Finite q\<close> is the finite double whose value is the rational \<open>q\<close> (\<open>Finite 0\<close>
  is \<open>+0.0\<close>), \<open>NegZero\<close> is \<open>-0.0\<close>, and the three special values are separate constructors.
  Comparison is the IEEE one: every comparison with \<open>NaN\<close> is false, and \<open>-0.0 == 0.0\<close>.
\<close>

datatype pyfloat = Finite rat | NegZero | PInf | NInf | NaN

fun fkey :: "pyfloat \<Rightarrow> int \<times> rat" where
  "fkey (Finite q) = (0, q)"
| "fkey NegZero = (0, 0)"
| "fkey PInf = (1, 0)"
| "fkey NInf = (-1, 0)"
| "fkey NaN = (0, 0)"

definition fle :: "pyfloat \<Rightarrow> pyfloat \<Rightarrow> bool" where
  "fle a b \<longleftrightarrow> a \<noteq> NaN \<and> b \<noteq> NaN \<and>
     (fst (fkey a) < fst (fkey b) \<or> (fst (fkey a) = fst (fkey b) \<and> snd (fkey a) \<le> snd (fkey b)))"

definition fge :: "pyfloat \<Rightarrow> pyfloat \<Rightarrow> bool" where
  "fge a b \<longleftrightarrow> fle b a"

definition flt :: "pyfloat \<Rightarrow> pyfloat \<Rightarrow> bool" where
  "flt a b \<longleftrightarrow> fle a b \<and> \<not> fle b a"

definition feq :: "pyfloat \<Rightarrow> pyfloat \<Rightarrow> bool" where
  "feq a b \<longleftrightarrow> fle a b \<and> fle b a"

datatype py_error = ValueError | TypeError | OverflowError

subsection \<open>Decimal text of integers: \<open>str(int)\<close>\<close>

fun str_nat :: "nat \<Rightarrow> pystr" where
  "str_nat n = (if n < 10 then [48 + n] else str_nat (n div 10) @ [48 + n mod 10])"

declare str_nat.simps [simp del]

definition str_int :: "int \<Rightarrow> pystr" where
  "str_int i = (if i < 0 then 45 # str_nat (nat (- i)) else str_nat (nat i))"

subsection \<open>Fixed-point text of floats: \<open>format(x, '.1f')\<close>\<close>

text \<open>
  CPython formats the exact value of the double, correctly rounded to the requested
  number of places, ties going to the even digit; the sign is printed from the sign bit,
  also when the magnitude rounds to zero.
\<close>

definition round_half_even :: "rat \<Rightarrow> int" where
  "round_half_even q =
     (let f = \<lfloor>q\<rfloor>; r = q - of_int f
      in if r < 1 / 2 then f else if 1 / 2 < r then f + 1 else if even f then f else f + 1)"

definition fmt_1f_abs :: "rat \<Rightarrow> pystr" where
  "fmt_1f_abs q =
     (let n = nat (round_half_even (\<bar>q\<bar> * 10))
      in str_nat (n div 10) @ [46] @ [48 + n mod 10])"

fun fmt_1f :: "pyfloat \<Rightarrow> pystr" where
  "fmt_1f (Finite q) = (if q < 0 then 45 # fmt_1f_abs q else fmt_1f_abs q)"
| "fmt_1f NegZero = 45 # fmt_1f_abs 0"
| "fmt_1f PInf = asc ''inf''"
| "fmt_1f NInf = asc ''-inf''"
| "fmt_1f NaN = asc ''nan''"

subsection \<open>Parsing numbers: \<open>float(str)\<close> and \<open>int(str)\<close>\<close>

text \<open>
  Both builtins first map the text to ASCII (\<open>_PyUnicode_TransformDecimalAndSpaceToASCII\<close>):
  code points below 127 stay, a Unicode white space becomes a blank, a Unicode decimal digit
  becomes the ASCII digit of the same value, and at the first other code point the text is cut
  after a \<open>?\<close>. Decimal digits come in runs of ten; \<open>decimal_zeros\<close> lists the code point of the
  zero of each run above ASCII (Unicode 14.0, the table of CPython 3.11).
\<close>

definition unicode_spaces :: "nat list" where
  "unicode_spaces = [0x85, 0xa0, 0x1680, 0x2000, 0x2001, 0x2002, 0x2003, 0x2004, 0x2005,
     0x2006, 0x2007, 0x2008, 0x2009, 0x200a, 0x2028, 0x2029, 0x202f, 0x205f, 0x3000]"

definition decimal_zeros :: "nat list" where
  "decimal_zeros = [0x660, 0x6f0, 0x7c0, 0x966, 0x9e6, 0xa66, 0xae6, 0xb66, 0xbe6, 0xc66,
     0xce6, 0xd66, 0xde6, 0xe50, 0xed0, 0xf20, 0x1040, 0x1090, 0x17e0, 0x1810, 0x1946, 0x19d0,
     0x1a80, 0x1a90, 0x1b50, 0x1bb0, 0x1c40, 0x1c50, 0xa620, 0xa8d0, 0xa900, 0xa9d0, 0xa9f0,
     0xaa50, 0xabf0, 0xff10, 0x104a0, 0x10d30, 0x11066, 0x110f0, 0x11136, 0x111d0, 0x112f0,
     0x11450, 0x114d0, 0x11650, 0x116c0, 0x11730, 0x118e0, 0x11950, 0x11c50, 0x11d50, 0x11da0,
     0x16a60, 0x16ac0, 0x16b50, 0x1d7ce, 0x1d7d8, 0x1d7e2, 0x1d7ec, 0x1d7f6, 0x1e140, 0x1e2f0,
     0x1e950, 0x1fbf0]"

definition to_decimal :: "nat \<Rightarrow> nat option" where
  "to_decimal c = (case filter (\<lambda>z. z \<le> c \<and> c < z + 10) decimal_zeros of
                     [] \<Rightarrow> None | z # _ \<Rightarrow> Some (c - z))"

fun to_ascii :: "pystr \<Rightarrow> pystr" where
  "to_ascii [] = []"
| "to_ascii (c # cs) =
     (if c < 127 then c # to_ascii cs
      else if c \<in> set unicode_spaces then 32 # to_ascii cs
      else (case to_decimal c of
              Some d \<Rightarrow> (48 + d) # to_ascii cs
            | None \<Rightarrow> [63]))"

definition is_space :: "nat \<Rightarrow> bool" where
  "is_space c \<longleftrightarrow> c = 32 \<or> (9 \<le> c \<and> c \<le> 13)"

definition is_digit :: "nat \<Rightarrow> bool" where
  "is_digit c \<longleftrightarrow> 48 \<le> c \<and> c \<le> 57"

definition strip :: "pystr \<Rightarrow> pystr" where
  "strip s = rev (dropWhile is_space (rev (dropWhile is_space s)))"

definition digits_val :: "pystr \<Rightarrow> nat" where
  "digits_val ds = foldl (\<lambda>v c. 10 * v + (c - 48)) 0 ds"

text \<open>
  Underscores (\<open>_Py_string_to_number_with_underscores\<close>): an underscore is allowed only
  between two digits. \<open>underscores_ok prev s\<close> scans with the previous character at hand and
  \<open>drop_underscores\<close> gives the text that is then parsed.
\<close>

fun underscores_ok :: "nat \<Rightarrow> pystr \<Rightarrow> bool" where
  "underscores_ok prev [] = (prev \<noteq> 95)"
| "underscores_ok prev (c # cs) =
     (if c = 95 then is_digit prev \<and> underscores_ok c cs
      else if prev = 95 then is_digit c \<and> underscores_ok c cs
      else underscores_ok c cs)"

definition drop_underscores :: "pystr \<Rightarrow> pystr option" where
  "drop_underscores s =
     (if 95 \<notin> set s then Some s
      else if underscores_ok 0 s then Some (filter (\<lambda>c. c \<noteq> 95) s) else None)"

fun split_sign :: "pystr \<Rightarrow> bool \<times> pystr" where
  "split_sign [] = (False, [])"
| "split_sign (c # cs) =
     (if c = 45 then (True, cs) else if c = 43 then (False, cs) else (False, c # cs))"

definition lower :: "pystr \<Rightarrow> pystr" where
  "lower s = map (\<lambda>c. if 65 \<le> c \<and> c \<le> 90 then c + 32 else c) s"

text \<open>
  The nearest double of a positive rational, ties to even (\<open>_Py_dg_strtod\<close>): the exponent
  \<open>e\<close> with \<open>2^e \<le> q < 2^(e+1)\<close>, not below that of the smallest normal number, fixes the
  spacing \<open>2^(e-52)\<close> of the doubles around \<open>q\<close>; a result of \<open>2^1024\<close> or more is infinite.
\<close>

definition ilog2 :: "rat \<Rightarrow> int" where
  "ilog2 q = (if 1 \<le> q then bitlen \<lfloor>q\<rfloor> - 1 else - bitlen (\<lceil>1 / q\<rceil> - 1))"

definition nearest_double :: "rat \<Rightarrow> rat" where
  "nearest_double q =
     (let e = max (ilog2 q) (- 1022); ulp = 2 powi (e - 52)
      in of_int (round_half_even (q / ulp)) * ulp)"

definition to_double :: "bool \<Rightarrow> rat \<Rightarrow> pyfloat" where
  "to_double neg q =
     (let v = (if q = 0 then 0 else nearest_double q)
      in if 2 ^ 1024 \<le> v then (if neg then NInf else PInf)
         else if v = 0 then (if neg then NegZero else Finite 0)
         else Finite (if neg then - v else v))"

text \<open>
  A Python \<open>int\<close> compared with a \<open>float64\<close> column is converted to a float, to the nearest
  double; an \<open>int\<close> that rounds to \<open>2^1024\<close> or beyond is ``too large to convert to float''
  and the conversion raises \<open>OverflowError\<close>.
\<close>

definition int_to_float :: "int \<Rightarrow> py_error + pyfloat" where
  "int_to_float i =
     (case to_double (i < 0) (of_int \<bar>i\<bar>) of
        PInf \<Rightarrow> Inl OverflowError
      | NInf \<Rightarrow> Inl OverflowError
      | x \<Rightarrow> Inr x)"

text \<open>
  The decimal syntax of \<open>float\<close>: digits with an optional point and an optional exponent,
  at least one digit in the mantissa, at least one digit in an exponent, nothing left over.
  The result is the mantissa as a number and the power of ten that scales it.
\<close>

definition parse_exponent :: "pystr \<Rightarrow> int option" where
  "parse_exponent s =
     (case s of
        [] \<Rightarrow> Some 0
      | c # t \<Rightarrow>
          if c = 101 \<or> c = 69 then
            (let (eneg, ds) = split_sign t
             in if ds \<noteq> [] \<and> list_all is_digit ds
                then Some (if eneg then - int (digits_val ds) else int (digits_val ds))
                else None)
          else None)"

definition parse_decimal :: "pystr \<Rightarrow> rat option" where
  "parse_decimal s =
     (let ds1 = takeWhile is_digit s; r1 = dropWhile is_digit s;
          (ds2, r2) = (case r1 of
                         [] \<Rightarrow> ([], [])
                       | c # t \<Rightarrow> if c = 46 then (takeWhile is_digit t, dropWhile is_digit t)
                                  else ([], r1))
      in if ds1 = [] \<and> ds2 = [] then None
         else (case parse_exponent r2 of
                 None \<Rightarrow> None
               | Some ex \<Rightarrow>
                   Some (of_nat (digits_val (ds1 @ ds2)) * 10 powi (ex - int (length ds2)))))"

definition parse_float_body :: "pystr \<Rightarrow> pyfloat option" where
  "parse_float_body s =
     (let (neg, t) = split_sign s; w = lower t
      in if w = asc ''inf'' \<or> w = asc ''infinity'' then Some (if neg then NInf else PInf)
         else if w = asc ''nan'' then Some NaN
         else map_option (to_double neg) (parse_decimal t))"

definition py_float :: "pystr \<Rightarrow> pyfloat option" where
  "py_float text =
     (case drop_underscores (strip (to_ascii text)) of
        None \<Rightarrow> None
      | Some s \<Rightarrow> parse_float_body s)"

text \<open>
  The syntax of \<open>int(str)\<close> in base 10 (\<open>PyLong_FromString\<close>): blanks, a sign, digits with
  single underscores between them, blanks. CPython's limit of 4300 digits is left out: a
  message text has at most 4096 characters.
\<close>

definition py_int :: "pystr \<Rightarrow> int option" where
  "py_int text =
     (let (neg, t) = split_sign (dropWhile is_space (to_ascii text));
          tok = takeWhile (\<lambda>c. is_digit c \<or> c = 95) t;
          rest = dropWhile (\<lambda>c. is_digit c \<or> c = 95) t
      in if tok \<noteq> [] \<and> hd tok \<noteq> 95 \<and> underscores_ok 0 tok \<and> list_all is_space rest
         then Some (let v = int (digits_val (filter (\<lambda>c. c \<noteq> 95) tok))
                    in if neg then - v else v)
         else None)"

section \<open>The catalog\<close>

text \<open>
  A row of \<open>movies_df\<close>, as \<open>pd.read_csv\<close> and lines 55 and 56 leave it. The text columns
  of a data frame hold Python objects: a string, or a float (\<open>NaN\<close> where the file had no
  value; an empty field is read as \<open>NaN\<close>, never as an empty string);
  \<open>movie.get('poster_path')\<close> gives \<open>None\<close> when the file has no such column. The columns
  \<open>popularity\<close> and \<open>vote_average\<close> hold floats. The column \<open>year\<close> holds the years of the
  release dates, whole numbers; rows without a year are dropped at load time. The model
  takes the column as pandas has it when a release date of the file is missing or
  unreadable, which is what line 56 provides for: \<open>float64\<close>, each value a whole number,
  kept in the field \<open>year\<close>. The column \<open>vote_count\<close> holds integers, and floats as soon as
  one count is missing in the file.
\<close>

datatype cell = NoneVal | Str pystr | Num pyfloat

datatype number = IntVal int | FloatVal pyfloat

record movie =
  title :: cell
  overview :: cell
  year :: int
  popularity :: pyfloat
  vote_average :: pyfloat
  vote_count :: number
  poster_path :: cell

text \<open>
  What the bot takes from its environment and from library code that is not modelled:
  the text Python gives a float without a format (\<open>str_float\<close> for a Python float,
  \<open>str_float64\<close> for a \<open>numpy.float64\<close>), numpy's \<open>round(x, 1)\<close>, which of several
  equal least or greatest values of a column numpy's reduction returns (\<open>tie_min\<close> and
  \<open>tie_max\<close>, a position among them, given the column), and the configured
  \<open>MAX_OVERVIEW_LENGTH\<close>.
\<close>

record env =
  str_float :: "pyfloat \<Rightarrow> pystr"
  str_float64 :: "pyfloat \<Rightarrow> pystr"
  round1 :: "pyfloat \<Rightarrow> pyfloat"
  tie_min :: "pyfloat list \<Rightarrow> nat"
  tie_max :: "pyfloat list \<Rightarrow> nat"
  MAX_OVERVIEW_LENGTH :: int

subsection \<open>The pandas operations the handlers use\<close>

text \<open>
  \<open>Series.min()\<close> and \<open>Series.max()\<close> skip \<open>NaN\<close> and give \<open>NaN\<close> when nothing is left;
  otherwise they give a value of the column that no other value is below (above). Only
  \<open>0.0\<close> and \<open>-0.0\<close> are different values that compare equal; when both are least
  (greatest), which of them comes back depends on how numpy runs the reduction, and is
  taken from the environment. \<open>df[mask]\<close> keeps the rows whose mask entry is true, in order;
  \<open>df.sample(1).iloc[0]\<close> picks one row at random and raises \<open>ValueError\<close> on an empty
  frame. The random choice is the explicit argument \<open>rnd\<close>.
\<close>

definition col_min :: "env \<Rightarrow> pyfloat list \<Rightarrow> pyfloat" where
  "col_min E xs =
     (let ys = filter (\<lambda>x. x \<noteq> NaN) xs;
          least = filter (\<lambda>x. \<forall>y \<in> set ys. fle x y) ys
      in if least = [] then NaN else least ! (tie_min E xs mod length least))"

definition col_max :: "env \<Rightarrow> pyfloat list \<Rightarrow> pyfloat" where
  "col_max E xs =
     (let ys = filter (\<lambda>x. x \<noteq> NaN) xs;
          greatest = filter (\<lambda>x. \<forall>y \<in> set ys. fle y x) ys
      in if greatest = [] then NaN else greatest ! (tie_max E xs mod length greatest))"

definition mask_rows :: "'a list \<Rightarrow> bool list \<Rightarrow> 'a list" where
  "mask_rows rows msk = map fst (filter snd (zip rows msk))"

definition sample1 :: "nat \<Rightarrow> 'a list \<Rightarrow> py_error + 'a" where
  "sample1 rnd rows = (if rows = [] then Inl ValueError else Inr (rows ! (rnd mod length rows)))"

definition notna :: "cell \<Rightarrow> bool" where
  "notna c = (case c of NoneVal \<Rightarrow> False | Str _ \<Rightarrow> True | Num x \<Rightarrow> x \<noteq> NaN)"

definition is_str :: "cell \<Rightarrow> bool" where
  "is_str c = (case c of Str _ \<Rightarrow> True | _ \<Rightarrow> False)"

definition str_cell :: "env \<Rightarrow> cell \<Rightarrow> pystr" where
  "str_cell E c = (case c of NoneVal \<Rightarrow> asc ''None'' | Str s \<Rightarrow> s | Num x \<Rightarrow> str_float E x)"

definition str_number :: "env \<Rightarrow> number \<Rightarrow> pystr" where
  "str_number E n = (case n of IntVal i \<Rightarrow> str_int i | FloatVal x \<Rightarrow> str_float64 E x)"

text \<open>The slice \<open>s[:n]\<close>; a negative \<open>n\<close> counts from the end.\<close>

definition slice_to :: "'a list \<Rightarrow> int \<Rightarrow> 'a list" where
  "slice_to s n = (if 0 \<le> n then take (nat n) s else take (nat (int (length s) + n)) s)"

section \<open>Messages\<close>

text \<open>
  What a handler does to the chat: answer a callback query, send a new message
  (\<open>reply_text\<close>) or rewrite the message that carries the buttons (\<open>edit_message_text\<close>).
  A message has its text, its inline keyboard (rows of buttons, each a label and its callback
  data) if any, and whether it is sent with \<open>parse_mode='HTML'\<close>. The literal texts of
  \<open>bot.py\<close> follow as lists of code points, each with the line it stands on.
\<close>

type_synonym keyboard = "(pystr \<times> pystr) list list"

datatype action =
    Answer
  | ReplyText pystr "keyboard option" bool
  | EditText pystr "keyboard option" bool

definition txt_no_data :: pystr where \<comment> \<open>line 30\<close>
  "txt_no_data = [9888, 65039, 32, 1041, 1072, 1079, 1072, 32, 1092, 1080, 1083, 1100, 1084,
     1086, 1074, 32, 1085, 1077, 32, 1079, 1072, 1075, 1088, 1091, 1078, 1077, 1085, 1072, 46,
     32, 1055, 1086, 1087, 1088, 1086, 1073, 1091, 1081, 1090, 1077, 32, 1087, 1086, 1079, 1078,
     1077, 46]"

definition btn_random :: pystr where \<comment> \<open>line 67\<close>
  "btn_random = [127916, 32, 1057, 1083, 1091, 1095, 1072, 1081, 1085, 1099, 1081, 32, 1092,
     1080, 1083, 1100, 1084]"

definition btn_rating :: pystr where \<comment> \<open>line 68\<close>
  "btn_rating = [11088, 32, 1055, 1086, 32, 1088, 1077, 1081, 1090, 1080, 1085, 1075, 1091]"

definition btn_year :: pystr where \<comment> \<open>line 69\<close>
  "btn_year = [128197, 32, 1055, 1086, 32, 1075, 1086, 1076, 1091]"

definition btn_popularity :: pystr where \<comment> \<open>line 70\<close>
  "btn_popularity = [128293, 32, 1055, 1086, 32, 1087, 1086, 1087, 1091, 1083, 1103, 1088, 1085,
     1086, 1089, 1090, 1080]"

definition btn_about :: pystr where \<comment> \<open>line 71\<close>
  "btn_about = [8505, 65039, 32, 1054, 32, 1073, 1086, 1090, 1077]"

definition txt_hello :: pystr where \<comment> \<open>line 77\<close>
  "txt_hello = [1055, 1088, 1080, 1074, 1077, 1090, 44, 32]"

definition txt_choose :: pystr where \<comment> \<open>line 77\<close>
  "txt_choose = [33, 32, 1042, 1099, 1073, 1077, 1088, 1080, 32, 1082, 1088, 1080, 1090, 1077,
     1088, 1080, 1081, 32, 1087, 1086, 1080, 1089, 1082, 1072, 58]"

definition txt_about_1 :: pystr where \<comment> \<open>line 92\<close>
  "txt_about_1 = [127916, 32, 60, 98, 62, 77, 111, 118, 105, 101, 32, 82, 101, 99, 111, 109,
     109, 101, 110, 100, 97, 116, 105, 111, 110, 32, 66, 111, 116, 60, 47, 98, 62, 10, 10, 1042,
     32, 1073, 1072, 1079, 1077, 32]"

definition txt_about_2 :: pystr where \<comment> \<open>line 93\<close>
  "txt_about_2 = [32, 1092, 1080, 1083, 1100, 1084, 1086, 1074, 46, 10, 1050, 1088, 1080, 1090,
     1077, 1088, 1080, 1080, 32, 1087, 1086, 1080, 1089, 1082, 1072, 58, 10, 45, 32, 1057, 1083,
     1091, 1095, 1072, 1081, 1085, 1099, 1081, 32, 1074, 1099, 1073, 1086, 1088, 10, 45, 32,
     1055, 1086, 32, 1088, 1077, 1081, 1090, 1080, 1085, 1075, 1091, 32, 40, 73, 77, 68, 98, 41,
     10, 45, 32, 1055, 1086, 32, 1075, 1086, 1076, 1091, 10, 45, 32, 1055, 1086, 32, 1087, 1086,
     1087, 1091, 1083, 1103, 1088, 1085, 1086, 1089, 1090, 1080, 10, 10, 1048, 1089, 1087, 1086,
     1083, 1100, 1079, 1091, 1081, 1090, 1077, 32, 47, 115, 116, 97, 114, 116, 32, 1076, 1083,
     1103, 32, 1085, 1072, 1095, 1072, 1083, 1072, 46]"

definition btn_back :: pystr where \<comment> \<open>line 97\<close>
  "btn_back = [128281, 32, 1053, 1072, 1079, 1072, 1076]"

definition txt_random_header :: pystr where \<comment> \<open>line 105\<close>
  "txt_random_header = [127922, 32, 1057, 1083, 1091, 1095, 1072, 1081, 1085, 1072, 1103, 32,
     1088, 1077, 1082, 1086, 1084, 1077, 1085, 1076, 1072, 1094, 1080, 1103, 58]"

definition txt_ask_rating_1 :: pystr where \<comment> \<open>line 113\<close>
  "txt_ask_rating_1 = [1042, 1074, 1077, 1076, 1080, 1090, 1077, 32, 1084, 1080, 1085, 1080,
     1084, 1072, 1083, 1100, 1085, 1099, 1081, 32, 1088, 1077, 1081, 1090, 1080, 1085, 1075, 32,
     40]"

definition txt_ask_rating_2 :: pystr where \<comment> \<open>line 113\<close>
  "txt_ask_rating_2 = [32, 45, 32]"

definition txt_ask_rating_3 :: pystr where \<comment> \<open>line 113\<close>
  "txt_ask_rating_3 = [41, 58, 10, 1055, 1088, 1080, 1084, 1077, 1088, 58, 32, 60, 99, 111, 100,
     101, 62, 55, 46, 53, 60, 47, 99, 111, 100, 101, 62]"

definition txt_rating_not_number :: pystr where \<comment> \<open>line 122\<close>
  "txt_rating_not_number = [1042, 1074, 1077, 1076, 1080, 1090, 1077, 32, 1082, 1086, 1088,
     1088, 1077, 1082, 1090, 1085, 1086, 1077, 32, 1095, 1080, 1089, 1083, 1086, 44, 32, 1085,
     1072, 1087, 1088, 1080, 1084, 1077, 1088, 32, 55, 46, 53]"

definition txt_rating_range_1 :: pystr where \<comment> \<open>line 128\<close>
  "txt_rating_range_1 = [1042, 1074, 1077, 1076, 1080, 1090, 1077, 32, 1095, 1080, 1089, 1083,
     1086, 32, 1086, 1090, 32]"

definition txt_rating_range_2 :: pystr where \<comment> \<open>line 128\<close>
  "txt_rating_range_2 = [32, 1076, 1086, 32]"

definition txt_rating_not_found :: pystr where \<comment> \<open>line 133\<close>
  "txt_rating_not_found = [1060, 1080, 1083, 1100, 1084, 1086, 1074, 32, 1089, 32, 1090, 1072,
     1082, 1080, 1084, 32, 1088, 1077, 1081, 1090, 1080, 1085, 1075, 1086, 1084, 32, 1085, 1077,
     32, 1085, 1072, 1081, 1076, 1077, 1085, 1086, 46]"

definition txt_rating_header :: pystr where \<comment> \<open>line 137\<close>
  "txt_rating_header = [127916, 32, 1060, 1080, 1083, 1100, 1084, 1099, 32, 1089, 32, 1088,
     1077, 1081, 1090, 1080, 1085, 1075, 1086, 1084, 32]"

definition txt_ask_year :: pystr where \<comment> \<open>line 143\<close>
  "txt_ask_year = [1042, 1074, 1077, 1076, 1080, 1090, 1077, 32, 1075, 1086, 1076, 32, 1074,
     1099, 1087, 1091, 1089, 1082, 1072, 32, 40, 1085, 1072, 1087, 1088, 1080, 1084, 1077, 1088,
     44, 32, 50, 48, 50, 48, 41, 58]"

definition txt_year_not_int :: pystr where \<comment> \<open>line 150\<close>
  "txt_year_not_int = [1042, 1074, 1077, 1076, 1080, 1090, 1077, 32, 1082, 1086, 1088, 1088,
     1077, 1082, 1090, 1085, 1099, 1081, 32, 1075, 1086, 1076, 32, 40, 1085, 1072, 1087, 1088,
     1080, 1084, 1077, 1088, 44, 32, 50, 48, 50, 48, 41]"

definition txt_year_1 :: pystr where \<comment> \<open>line 155\<close>
  "txt_year_1 = [1060, 1080, 1083, 1100, 1084, 1086, 1074, 32, 1079, 1072, 32]"

definition txt_year_not_found_2 :: pystr where \<comment> \<open>line 155\<close>
  "txt_year_not_found_2 = [32, 1075, 1086, 1076, 32, 1085, 1077, 32, 1085, 1072, 1081, 1076,
     1077, 1085, 1086, 46]"

definition txt_year_header_1 :: pystr where \<comment> \<open>line 159\<close>
  "txt_year_header_1 = [127916, 32, 1060, 1080, 1083, 1100, 1084, 1099, 32, 1079, 1072, 32]"

definition txt_year_header_2 :: pystr where \<comment> \<open>line 159\<close>
  "txt_year_header_2 = [32, 1075, 1086, 1076, 58]"

definition txt_ask_popularity :: pystr where \<comment> \<open>line 165\<close>
  "txt_ask_popularity = [1042, 1074, 1077, 1076, 1080, 1090, 1077, 32, 1084, 1080, 1085, 1080,
     1084, 1072, 1083, 1100, 1085, 1099, 1081, 32, 1091, 1088, 1086, 1074, 1077, 1085, 1100, 32,
     1087, 1086, 1087, 1091, 1083, 1103, 1088, 1085, 1086, 1089, 1090, 1080, 58]"

definition txt_popularity_not_number :: pystr where \<comment> \<open>line 172\<close>
  "txt_popularity_not_number = [1042, 1074, 1077, 1076, 1080, 1090, 1077, 32, 1082, 1086, 1088,
     1088, 1077, 1082, 1090, 1085, 1086, 1077, 32, 1095, 1080, 1089, 1083, 1086, 32, 1076, 1083,
     1103, 32, 1087, 1086, 1087, 1091, 1083, 1103, 1088, 1085, 1086, 1089, 1090, 1080, 46]"

definition txt_popularity_1 :: pystr where \<comment> \<open>line 177\<close>
  "txt_popularity_1 = [1060, 1080, 1083, 1100, 1084, 1086, 1074, 32, 1089, 32, 1087, 1086, 1087,
     1091, 1083, 1103, 1088, 1085, 1086, 1089, 1090, 1100, 1102, 32, 1086, 1090, 32]"

definition txt_popularity_not_found_2 :: pystr where \<comment> \<open>line 177\<close>
  "txt_popularity_not_found_2 = [32, 1085, 1077, 32, 1085, 1072, 1081, 1076, 1077, 1085, 1086,
     46]"

definition txt_popularity_header :: pystr where \<comment> \<open>line 181\<close>
  "txt_popularity_header = [127916, 32, 1060, 1080, 1083, 1100, 1084, 1099, 32, 1089, 32, 1087,
     1086, 1087, 1091, 1083, 1103, 1088, 1085, 1086, 1089, 1090, 1100, 1102, 32, 1086, 1090,
     32]"

definition txt_info_title :: pystr where \<comment> \<open>line 186\<close>
  "txt_info_title = [10, 10, 60, 98, 62]"

definition txt_info_year :: pystr where \<comment> \<open>line 187\<close>
  "txt_info_year = [60, 47, 98, 62, 32, 40]"

definition txt_info_rating :: pystr where \<comment> \<open>line 187\<close>
  "txt_info_rating = [41, 10, 11088, 32, 1056, 1077, 1081, 1090, 1080, 1085, 1075, 58, 32, 60,
     98, 62]"

definition txt_info_votes :: pystr where \<comment> \<open>line 188\<close>
  "txt_info_votes = [60, 47, 98, 62, 47, 49, 48, 32, 40, 1075, 1086, 1083, 1086, 1089, 1086,
     1074, 58, 32]"

definition txt_info_popularity :: pystr where \<comment> \<open>line 188\<close>
  "txt_info_popularity = [41, 10, 128293, 32, 1055, 1086, 1087, 1091, 1083, 1103, 1088, 1085,
     1086, 1089, 1090, 1100, 58, 32, 60, 98, 62]"

definition txt_info_end :: pystr where \<comment> \<open>line 189\<close>
  "txt_info_end = [60, 47, 98, 62, 10, 10]"

definition txt_overview_open :: pystr where \<comment> \<open>line 194\<close>
  "txt_overview_open = [128221, 32, 60, 105, 62]"

definition txt_overview_close :: pystr where \<comment> \<open>line 194\<close>
  "txt_overview_close = [60, 47, 105, 62]"

definition txt_poster_open :: pystr where \<comment> \<open>line 198\<close>
  "txt_poster_open = [10, 10, 60, 97, 32, 104, 114, 101, 102, 61, 39, 104, 116, 116, 112, 115,
     58, 47, 47, 105, 109, 97, 103, 101, 46, 116, 109, 100, 98, 46, 111, 114, 103, 47, 116, 47,
     112, 47, 119, 53, 48, 48]"

definition txt_poster_close :: pystr where \<comment> \<open>line 198\<close>
  "txt_poster_close = [39, 62, 127902, 32, 1055, 1086, 1089, 1090, 1077, 1088, 60, 47, 97, 62]"

definition btn_again :: pystr where \<comment> \<open>line 201\<close>
  "btn_again = [128257, 32, 1045, 1097, 1077, 32, 1086, 1076, 1080, 1085]"

definition txt_cancelled :: pystr where \<comment> \<open>line 212\<close>
  "txt_cancelled = [1044, 1077, 1081, 1089, 1090, 1074, 1080, 1077, 32, 1086, 1090, 1084, 1077,
     1085, 1077, 1085, 1086, 46, 32, 1048, 1089, 1087, 1086, 1083, 1100, 1079, 1091, 1081, 1090,
     1077, 32, 47, 115, 116, 97, 114, 116, 32, 1076, 1083, 1103, 32, 1085, 1086, 1074, 1086,
     1075, 1086, 32, 1087, 1086, 1080, 1089, 1082, 1072, 46]"

section \<open>The handlers of \<open>MovieRecommendationBot\<close>\<close>

text \<open>
  The bot's only state is \<open>movies_df\<close>, the catalog, passed as \<open>df\<close>. A handler returns what
  it sends; a handler of the conversation returns its next state as well. An exception
  that leaves the handler is \<open>Inl\<close>.
\<close>

definition RATING :: int where "RATING = 0"
definition YEAR :: int where "YEAR = 1"
definition POPULARITY :: int where "POPULARITY = 2"
definition END :: int where "END = - 1"

datatype update = Command pystr | CallbackQuery pystr | TextMessage pystr

definition start_keyboard :: keyboard where
  "start_keyboard =
     [[(btn_random, asc ''random'')],
      [(btn_rating, asc ''rating'')],
      [(btn_year, asc ''year'')],
      [(btn_popularity, asc ''popularity'')],
      [(btn_about, asc ''about'')]]"

definition start :: "pystr \<Rightarrow> update \<Rightarrow> action list" where
  "start first_name upd =
     (let text = txt_hello @ first_name @ txt_choose
      in case upd of
           CallbackQuery _ \<Rightarrow> [Answer, EditText text (Some start_keyboard) False]
         | _ \<Rightarrow> [ReplyText text (Some start_keyboard) False])"

definition about :: "movie list \<Rightarrow> action list" where
  "about df =
     (let text = txt_about_1 @ str_nat (length df) @ txt_about_2
      in [Answer, EditText text (Some [[(btn_back, asc ''back'')]]) True])"

definition movie_keyboard :: keyboard where
  "movie_keyboard = [[(btn_again, asc ''random'')], [(btn_back, asc ''back'')]]"

text \<open>
  \<open>_send_movie_info\<close>. \<open>has_message\<close> says whether \<open>update_obj\<close> has a message to reply to.
  \<open>len(overview)\<close> raises \<open>TypeError\<close> when the overview is not a string.
\<close>

definition send_movie_info :: "env \<Rightarrow> bool \<Rightarrow> movie \<Rightarrow> pystr \<Rightarrow> py_error + action list" where
  "send_movie_info E has_message mv prefix =
     (let text = prefix @ txt_info_title @ str_cell E (title mv) @ txt_info_year
                 @ str_int (year mv) @ txt_info_rating @ str_float64 E (vote_average mv)
                 @ txt_info_votes @ str_number E (vote_count mv) @ txt_info_popularity
                 @ fmt_1f (popularity mv) @ txt_info_end
      in case overview mv of
           Str ov \<Rightarrow>
             (let ov' = (if MAX_OVERVIEW_LENGTH E < int (length ov)
                         then slice_to ov (MAX_OVERVIEW_LENGTH E) @ asc ''...'' else ov);
                  text = text @ txt_overview_open @ ov' @ txt_overview_close;
                  poster = poster_path mv;
                  text = (if notna poster \<and> is_str poster
                          then text @ txt_poster_open @ str_cell E poster @ txt_poster_close
                          else text)
              in Inr [if has_message then ReplyText text (Some movie_keyboard) True
                      else EditText text (Some movie_keyboard) True])
         | _ \<Rightarrow> Inl TypeError)"

text \<open>\<open>random_movie\<close>, with its decorator \<open>require_data\<close> written out.\<close>

definition random_movie :: "env \<Rightarrow> movie list \<Rightarrow> nat \<Rightarrow> py_error + action list" where
  "random_movie E df rnd =
     (if df = [] then Inr [Answer, EditText txt_no_data None False]
      else (case sample1 rnd df of
              Inl e \<Rightarrow> Inl e
            | Inr mv \<Rightarrow>
                (case send_movie_info E True mv txt_random_header of
                   Inl e \<Rightarrow> Inl e
                 | Inr sent \<Rightarrow> Inr (Answer # sent))))"

definition choose_rating :: "env \<Rightarrow> movie list \<Rightarrow> action list \<times> int" where
  "choose_rating E df =
     (let min_rating = round1 E (col_min E (map vote_average df));
          max_rating = round1 E (col_max E (map vote_average df))
      in ([Answer,
           EditText (txt_ask_rating_1 @ str_float64 E min_rating @ txt_ask_rating_2
                     @ str_float64 E max_rating @ txt_ask_rating_3) None True],
          RATING))"

text \<open>
  The three filters, written in the source as a comparison of a column with the value,
  which gives the mask, and the selection of the rows by the mask. In \<open>process_rating\<close>,
  lines 119 to 129 parse and check the text, lines 131 to 138 (\<open>resolve_rating\<close>) filter
  the catalog and answer. In \<open>process_year\<close> the value is a Python \<open>int\<close> of any size and the
  column holds floats: the comparison of line 153 converts the \<open>int\<close> to a float and
  compares floats, and the conversion raises \<open>OverflowError\<close> for an \<open>int\<close> beyond the range
  of a double. Line 153 stands outside the \<open>try\<close> of lines 147 to 151, so the error leaves
  the handler.
\<close>

definition filtered_rating :: "movie list \<Rightarrow> pyfloat \<Rightarrow> movie list" where \<comment> \<open>line 131\<close>
  "filtered_rating df rating = mask_rows df (map (\<lambda>v. fge v rating) (map vote_average df))"

definition filtered_year :: "movie list \<Rightarrow> int \<Rightarrow> py_error + movie list" where \<comment> \<open>line 153\<close>
  "filtered_year df yr =
     (case int_to_float yr of
        Inl e \<Rightarrow> Inl e
      | Inr y \<Rightarrow> Inr (mask_rows df (map (\<lambda>v. feq (Finite (of_int v)) y) (map year df))))"

definition filtered_popularity :: "movie list \<Rightarrow> pyfloat \<Rightarrow> movie list" where \<comment> \<open>line 175\<close>
  "filtered_popularity df pop = mask_rows df (map (\<lambda>v. fge v pop) (map popularity df))"

definition resolve_rating ::
  "env \<Rightarrow> movie list \<Rightarrow> nat \<Rightarrow> pyfloat \<Rightarrow> py_error + (action list \<times> int)" where
  "resolve_rating E df rnd rating =
     (let filtered = filtered_rating df rating
      in if filtered = [] then Inr ([ReplyText txt_rating_not_found None False], RATING)
         else (case sample1 rnd filtered of
                 Inl e \<Rightarrow> Inl e
               | Inr mv \<Rightarrow>
                   (case send_movie_info E True mv
                           (txt_rating_header @ fmt_1f rating @ asc ''+'') of
                      Inl e \<Rightarrow> Inl e
                    | Inr sent \<Rightarrow> Inr (sent, END))))"

definition process_rating ::
  "env \<Rightarrow> movie list \<Rightarrow> nat \<Rightarrow> pystr \<Rightarrow> py_error + (action list \<times> int)" where
  "process_rating E df rnd text =
     (case py_float text of
        None \<Rightarrow> Inr ([ReplyText txt_rating_not_number None False], RATING)
      | Some rating \<Rightarrow>
          (let min_rating = col_min E (map vote_average df);
               max_rating = col_max E (map vote_average df)
           in if \<not> (fle min_rating rating \<and> fle rating max_rating)
              then Inr ([ReplyText (txt_rating_range_1 @ fmt_1f min_rating @ txt_rating_range_2
                                    @ fmt_1f max_rating) None False], RATING)
              else resolve_rating E df rnd rating))"

definition choose_year :: "action list \<times> int" where
  "choose_year = ([Answer, EditText txt_ask_year None False], YEAR)"

definition process_year ::
  "env \<Rightarrow> movie list \<Rightarrow> nat \<Rightarrow> pystr \<Rightarrow> py_error + (action list \<times> int)" where
  "process_year E df rnd text =
     (case py_int text of
        None \<Rightarrow> Inr ([ReplyText txt_year_not_int None False], YEAR)
      | Some yr \<Rightarrow>
          (case filtered_year df yr of
             Inl e \<Rightarrow> Inl e
           | Inr filtered \<Rightarrow>
               if filtered = []
               then Inr ([ReplyText (txt_year_1 @ str_int yr @ txt_year_not_found_2) None False],
                         YEAR)
               else (case sample1 rnd filtered of
                       Inl e \<Rightarrow> Inl e
                     | Inr mv \<Rightarrow>
                         (case send_movie_info E True mv
                                 (txt_year_header_1 @ str_int yr @ txt_year_header_2) of
                            Inl e \<Rightarrow> Inl e
                          | Inr sent \<Rightarrow> Inr (sent, END)))))"

definition choose_popularity :: "action list \<times> int" where
  "choose_popularity = ([Answer, EditText txt_ask_popularity None False], POPULARITY)"

definition process_popularity ::
  "env \<Rightarrow> movie list \<Rightarrow> nat \<Rightarrow> pystr \<Rightarrow> py_error + (action list \<times> int)" where
  "process_popularity E df rnd text =
     (case py_float text of
        None \<Rightarrow> Inr ([ReplyText txt_popularity_not_number None False], POPULARITY)
      | Some pop \<Rightarrow>
          (let filtered = filtered_popularity df pop
           in if filtered = []
              then Inr ([ReplyText (txt_popularity_1 @ str_float E pop
                                    @ txt_popularity_not_found_2) None False], POPULARITY)
              else (case sample1 rnd filtered of
                      Inl e \<Rightarrow> Inl e
                    | Inr mv \<Rightarrow>
                        (case send_movie_info E True mv
                                (txt_popularity_header @ str_float E pop @ asc '':'') of
                           Inl e \<Rightarrow> Inl e
                         | Inr sent \<Rightarrow> Inr (sent, END)))))"

definition cancel :: "action list \<times> int" where
  "cancel = ([ReplyText txt_cancelled None False], END)"

section \<open>Dispatch: the handlers registered in \<open>main\<close>\<close>

text \<open>
  \<open>main\<close> registers, in this order and in one group, the command handler of \<open>/start\<close>, the
  callback handlers of \<open>random\<close>, \<open>about\<close> and \<open>back\<close>, and the conversation handler. The
  library gives an update to the first handler of the group that accepts it.

  An update is, after the transport, a command with its name, a tap on an inline button with
  its callback data, or a text message that is not a command. A pattern \<open>^word$\<close> is
  matched with \<open>re.match\<close>, where \<open>$\<close> also matches before a final newline; a command
  name is compared in lower case.

  The conversation handler keeps one state for the chat and user of the update: \<open>None\<close>
  when no conversation is open, else the state the last handler returned. Its entry points
  are tried when no conversation is open or \<open>allow_reentry\<close> is set; otherwise, and when no
  entry point accepts, the handlers of the current state and then the fallbacks are tried.
  The handler's result \<open>END\<close> closes the conversation, any other result is the new state.

  An exception that leaves a handler ends the processing of the update: the result is the
  exception. What the application does with it afterwards, the log entry and the apology of
  \<open>error_handler\<close> (lines 214 to 217), is not part of the model.
\<close>

datatype handler =
    H_choose_rating | H_choose_year | H_choose_popularity
  | H_process_rating | H_process_year | H_process_popularity
  | H_cancel

definition matches_pattern :: "string \<Rightarrow> update \<Rightarrow> bool" where
  "matches_pattern word upd =
     (case upd of
        CallbackQuery d \<Rightarrow> d = asc word \<or> d = asc word @ [10]
      | _ \<Rightarrow> False)"

definition matches_command :: "string \<Rightarrow> update \<Rightarrow> bool" where
  "matches_command name upd = (case upd of Command c \<Rightarrow> lower c = asc name | _ \<Rightarrow> False)"

definition matches_text :: "update \<Rightarrow> bool" where
  "matches_text upd = (case upd of TextMessage _ \<Rightarrow> True | _ \<Rightarrow> False)"

definition entry_points :: "(string \<times> handler) list" where
  "entry_points =
     [(''rating'', H_choose_rating), (''year'', H_choose_year),
      (''popularity'', H_choose_popularity)]"

definition states :: "int \<Rightarrow> handler list" where
  "states s =
     (if s = RATING then [H_process_rating]
      else if s = YEAR then [H_process_year]
      else if s = POPULARITY then [H_process_popularity]
      else [])"

definition fallbacks :: "(string \<times> handler) list" where
  "fallbacks = [(''cancel'', H_cancel)]"

definition allow_reentry :: bool where
  "allow_reentry = True"

definition check_update :: "int option \<Rightarrow> update \<Rightarrow> handler option" where
  "check_update state upd =
     (let entry = (if state = None \<or> allow_reentry
                   then find (\<lambda>(word, h). matches_pattern word upd) entry_points else None)
      in case entry of
           Some (word, h) \<Rightarrow> Some h
         | None \<Rightarrow>
             (case state of
                None \<Rightarrow> None
              | Some s \<Rightarrow>
                  (case find (\<lambda>h. matches_text upd) (states s) of
                     Some h \<Rightarrow> Some h
                   | None \<Rightarrow>
                       map_option snd
                         (find (\<lambda>(name, h). matches_command name upd) fallbacks))))"

definition text_of :: "update \<Rightarrow> pystr" where
  "text_of upd = (case upd of TextMessage t \<Rightarrow> t | Command c \<Rightarrow> 47 # c | CallbackQuery _ \<Rightarrow> [])"

definition run_handler ::
  "env \<Rightarrow> movie list \<Rightarrow> nat \<Rightarrow> handler \<Rightarrow> update \<Rightarrow> py_error + (action list \<times> int)" where
  "run_handler E df rnd h upd =
     (case h of
        H_choose_rating \<Rightarrow> Inr (choose_rating E df)
      | H_choose_year \<Rightarrow> Inr choose_year
      | H_choose_popularity \<Rightarrow> Inr choose_popularity
      | H_process_rating \<Rightarrow> process_rating E df rnd (text_of upd)
      | H_process_year \<Rightarrow> process_year E df rnd (text_of upd)
      | H_process_popularity \<Rightarrow> process_popularity E df rnd (text_of upd)
      | H_cancel \<Rightarrow> Inr cancel)"

definition update_state :: "int \<Rightarrow> int option" where
  "update_state new_state = (if new_state = END then None else Some new_state)"

definition process_update ::
  "env \<Rightarrow> movie list \<Rightarrow> nat \<Rightarrow> pystr \<Rightarrow> int option \<Rightarrow> update
     \<Rightarrow> py_error + (action list \<times> int option)" where
  "process_update E df rnd first_name state upd =
     (if matches_command ''start'' upd then Inr (start first_name upd, state)
      else if matches_pattern ''random'' upd then
        (case random_movie E df rnd of Inl e \<Rightarrow> Inl e | Inr sent \<Rightarrow> Inr (sent, state))
      else if matches_pattern ''about'' upd then Inr (about df, state)
      else if matches_pattern ''back'' upd then Inr (start first_name upd, state)
      else (case check_update state upd of
              None \<Rightarrow> Inr ([], state)
            | Some h \<Rightarrow>
                (case run_handler E df rnd h upd of
                   Inl e \<Rightarrow> Inl e
                 | Inr (sent, new_state) \<Rightarrow> Inr (sent, update_state new_state))))"

section \<open>Example data\<close>

text \<open>
  A small catalog and an environment for evaluating the model on concrete inputs. The
  ratings of the catalog run from 3.0 to 8.5. In \<open>example_env\<close> a float without a format is
  printed with one decimal place, which is what Python prints for the floats of this catalog
  and for the values typed in the examples (\<open>-5.0\<close>, \<open>1000000000.0\<close>); of several equal
  bounds the first is taken. \<open>example_df_gap\<close> is the same catalog with one more row, read
  from a line of the file whose overview field is empty.
\<close>

definition example_env :: env where
  "example_env = \<lparr>str_float = fmt_1f, str_float64 = fmt_1f, round1 = (\<lambda>x. x),
                   tie_min = (\<lambda>xs. 0), tie_max = (\<lambda>xs. 0), MAX_OVERVIEW_LENGTH = 400\<rparr>"

definition example_df :: "movie list" where
  "example_df =
     [\<lparr>title = Str (asc ''Alpha''), overview = Str (asc ''A quiet film.''), year = 1999,
       popularity = Finite (21 / 2), vote_average = Finite 3, vote_count = IntVal 10,
       poster_path = Str (asc ''/alpha.jpg'')\<rparr>,
      \<lparr>title = Str (asc ''Beta''), overview = Str (asc ''A loud film.''), year = 2020,
       popularity = Finite (221 / 4), vote_average = Finite (15 / 2), vote_count = IntVal 250,
       poster_path = Num NaN\<rparr>,
      \<lparr>title = Str (asc ''Gamma''), overview = Str (asc ''A long film.''), year = 2020,
       popularity = Finite (1 / 2), vote_average = Finite (17 / 2), vote_count = IntVal 3000,
       poster_path = Str (asc ''/gamma.jpg'')\<rparr>]"

definition example_df_gap :: "movie list" where
  "example_df_gap =
     example_df @
     [\<lparr>title = Str (asc ''Delta''), overview = Num NaN, year = 2021,
       popularity = Finite 4, vote_average = Finite 6, vote_count = IntVal 12,
       poster_path = Str (asc ''/delta.jpg'')\<rparr>]"

text \<open>
  The text of 310 characters that reads ten to the power 309: the digit 1 and 309 zeros.
\<close>

definition huge_year_text :: pystr where
  "huge_year_text = 49 # replicate 309 48"

section \<open>Filtering and selection\<close>

text \<open>
  The filters of the rating and of the popularity return exactly the rows of the catalog
  that satisfy the comparison, in the order of the catalog, and the random pick ranges over
  the whole catalog.
\<close>

lemma mask_rows_filter: "mask_rows xs (map g xs) = filter g xs"
  by (induction xs) (simp_all add: mask_rows_def)

lemma filtered_rating_filter: "filtered_rating df r = filter (\<lambda>m. fge (vote_average m) r) df"
  by (simp add: filtered_rating_def mask_rows_filter o_def)

lemma feq_Finite: "feq (Finite a) (Finite b) \<longleftrightarrow> a = b"
  by (auto simp: feq_def fle_def)

text \<open>
  The year filter, for a year that a double holds exactly: the rows of that year. For a
  year beyond the range of a double the comparison raises.
\<close>

lemma filtered_year_filter:
  "int_to_float y = Inr (Finite q) \<Longrightarrow> q = of_int y \<Longrightarrow>
   filtered_year df y = Inr (filter (\<lambda>m. year m = y) df)"
  by (simp add: filtered_year_def mask_rows_filter o_def feq_Finite)

lemma filtered_year_overflow:
  "int_to_float y = Inl e \<Longrightarrow> filtered_year df y = Inl e"
  by (simp add: filtered_year_def)

lemma filtered_popularity_filter:
  "filtered_popularity df p = filter (\<lambda>m. fge (popularity m) p) df"
  by (simp add: filtered_popularity_def mask_rows_filter o_def)

lemma sample1_member: "rows \<noteq> [] \<Longrightarrow> \<exists>m \<in> set rows. sample1 rnd rows = Inr m"
  by (simp add: sample1_def)

lemma sample1_range: "{m. \<exists>rnd. sample1 rnd rows = Inr m} = set rows"
proof (cases "rows = []")
  case True
  then show ?thesis by (simp add: sample1_def)
next
  case False
  show ?thesis
  proof (intro set_eqI iffI)
    fix m assume "m \<in> {m. \<exists>rnd. sample1 rnd rows = Inr m}"
    then obtain rnd where "sample1 rnd rows = Inr m" by blast
    with False have "m = rows ! (rnd mod length rows)" by (simp add: sample1_def)
    with False show "m \<in> set rows" by simp
  next
    fix m assume "m \<in> set rows"
    then obtain i where i: "i < length rows" "rows ! i = m" by (auto simp: in_set_conv_nth)
    with False have "sample1 i rows = Inr m" by (simp add: sample1_def)
    then show "m \<in> {m. \<exists>rnd. sample1 rnd rows = Inr m}" by blast
  qed
qed

lemma send_movie_info_not_ValueError: "send_movie_info E hm mv prefix \<noteq> Inl ValueError"
  by (simp add: send_movie_info_def Let_def split: cell.split)

lemma sample_then_send_not_ValueError:
  "rows \<noteq> [] \<Longrightarrow>
   (case sample1 rnd rows of Inl e \<Rightarrow> Inl e
    | Inr mv \<Rightarrow> (case send_movie_info E hm mv prefix of Inl e \<Rightarrow> Inl e | Inr sent \<Rightarrow> Inr (k sent)))
   \<noteq> Inl ValueError"
  using send_movie_info_not_ValueError [of E hm "rows ! (rnd mod length rows)" prefix]
  by (auto simp add: sample1_def split: sum.split)

lemma random_movie_not_ValueError: "random_movie E df rnd \<noteq> Inl ValueError"
  unfolding random_movie_def using sample_then_send_not_ValueError [where rows = df and rnd = rnd and E = E and hm = True]
  by (cases "df = []") simp_all

lemma resolve_rating_not_ValueError: "resolve_rating E df rnd r \<noteq> Inl ValueError"
  unfolding resolve_rating_def Let_def
  using sample_then_send_not_ValueError [where rows = "filtered_rating df r" and rnd = rnd and E = E and hm = True]
  by (cases "filtered_rating df r = []") simp_all

lemma process_rating_not_ValueError: "process_rating E df rnd text \<noteq> Inl ValueError"
  by (simp add: process_rating_def Let_def resolve_rating_not_ValueError split: option.split)

lemma process_year_not_ValueError: "process_year E df rnd text \<noteq> Inl ValueError"
proof (cases "py_int text")
  case None
  then show ?thesis by (simp add: process_year_def)
next
  case (Some y)
  show ?thesis
  proof (cases "filtered_year df y")
    case (Inl e)
    then have "e = OverflowError"
      by (auto simp: filtered_year_def int_to_float_def split: sum.splits pyfloat.splits)
    with Some Inl show ?thesis by (simp add: process_year_def)
  next
    case (Inr rows)
    with Some show ?thesis
      unfolding process_year_def
      using sample_then_send_not_ValueError [where rows = rows and rnd = rnd and E = E and hm = True]
      by (cases "rows = []") simp_all
  qed
qed

lemma process_popularity_not_ValueError: "process_popularity E df rnd text \<noteq> Inl ValueError"
proof (cases "py_float text")
  case None
  then show ?thesis by (simp add: process_popularity_def)
next
  case (Some p)
  then show ?thesis
    unfolding process_popularity_def Let_def
    using sample_then_send_not_ValueError [where rows = "filtered_popularity df p" and rnd = rnd and E = E and hm = True]
    by (cases "filtered_popularity df p = []") simp_all
qed

text \<open>
  Claim C2. On a non-empty candidate list the selection returns one of its members. On an
  empty list it raises \<open>ValueError\<close>, and no handler ever lets that error out: each one
  checks for emptiness before it samples.
\<close>

theorem choose_member_callers_guarded:
  "(rows \<noteq> [] \<longrightarrow> (\<exists>m \<in> set rows. sample1 rnd rows = Inr m))
   \<and> sample1 rnd ([] :: movie list) = Inl ValueError
   \<and> random_movie E df rnd \<noteq> Inl ValueError
   \<and> process_rating E df rnd text \<noteq> Inl ValueError
   \<and> process_year E df rnd text \<noteq> Inl ValueError
   \<and> process_popularity E df rnd text \<noteq> Inl ValueError"
  using sample1_member [of rows rnd]
  by (simp add: random_movie_not_ValueError process_rating_not_ValueError
      process_year_not_ValueError process_popularity_not_ValueError)
    (simp add: sample1_def)


text \<open>The selection on the example catalog.\<close>

theorem choose_member_callers_guarded_witness:
  "example_df \<noteq> []
   \<and> (\<exists>m \<in> set example_df. sample1 4 example_df = Inr m)
   \<and> sample1 4 example_df = Inr (example_df ! 1)
   \<and> random_movie example_env example_df 4 \<noteq> Inl ValueError
   \<and> process_rating example_env example_df 4 (asc ''7.5'') \<noteq> Inl ValueError
   \<and> process_year example_env example_df 4 (asc ''1899'') \<noteq> Inl ValueError
   \<and> process_popularity example_env example_df 4 (asc ''1e9'') \<noteq> Inl ValueError"
  using choose_member_callers_guarded [of example_df 4 example_env example_df "asc ''7.5''"]
    choose_member_callers_guarded [of example_df 4 example_env example_df "asc ''1899''"]
    choose_member_callers_guarded [of example_df 4 example_env example_df "asc ''1e9''"]
  by (simp add: example_df_def sample1_def)

section \<open>Evaluation of the parsers and formatters\<close>

lemma asc_Nil: "asc [] = []"
  by (simp add: asc_def)

lemma asc_Cons: "asc (c # cs) = of_char c # asc cs"
  by (simp add: asc_def)

lemma floor_rat_numeral_div: "\<lfloor>(numeral a :: rat) / numeral b\<rfloor> = numeral a div numeral b"
  using floor_divide_of_int_eq [of "numeral a" "numeral b", where ?'a = rat] by simp

lemma ceiling_rat_numeral_div:
  "\<lceil>(numeral a :: rat) / numeral b\<rceil> = - ((- numeral a) div numeral b)"
  using floor_divide_of_int_eq [of "- numeral a" "numeral b", where ?'a = rat]
  by (simp add: ceiling_def)

lemma powi_eval: "(x :: rat) powi e = (if 0 \<le> e then x ^ nat e else 1 / x ^ nat (- e))"
  by (simp add: power_int_def power_one_over inverse_eq_divide)

lemma bitlen_numeral_simps:
  "bitlen 1 = 1"
  "bitlen (numeral (Num.Bit0 n)) = bitlen (numeral n) + 1"
  "bitlen (numeral (Num.Bit1 n)) = bitlen (numeral n) + 1"
  "bitlen (- numeral n) = 0"
  by (subst compute_bitlen, simp)+

lemmas num_eval = floor_rat_numeral_div ceiling_rat_numeral_div powi_eval bitlen_numeral_simps
  round_half_even_def ilog2_def nearest_double_def to_double_def Let_def

lemmas parse_eval = asc_Nil asc_Cons strip_def is_space_def is_digit_def drop_underscores_def
  parse_float_body_def parse_decimal_def parse_exponent_def digits_val_def lower_def
  py_float_def py_int_def

lemma py_float_7_5: "py_float (asc ''7.5'') = Some (Finite (15 / 2))"
  by (simp add: parse_eval num_eval)

lemma py_float_8_5: "py_float (asc ''8.5'') = Some (Finite (17 / 2))"
  by (simp add: parse_eval num_eval)

lemma py_float_2_9:
  "py_float (asc ''2.9'') = Some (Finite (6530219459687219 / 2251799813685248))"
  by (simp add: parse_eval num_eval)

lemma py_float_abc: "py_float (asc ''abc'') = None"
  by (simp add: parse_eval num_eval)

lemma py_float_minus_5: "py_float (asc ''-5'') = Some (Finite (- 5))"
  by (simp add: parse_eval num_eval)

lemma py_float_nan: "py_float (asc ''nan'') = Some NaN"
  by (simp add: parse_eval num_eval)

lemma py_int_2020: "py_int (asc ''2020'') = Some 2020"
  by (simp add: parse_eval)

lemma py_int_1899: "py_int (asc ''1899'') = Some 1899"
  by (simp add: parse_eval)

lemma py_int_words: "py_int (asc ''twenty-twenty'') = None"
  by (simp add: parse_eval)

text \<open>
  A text of ASCII digits parses as the number it reads; the text of the digit 1 and 309
  zeros is \<open>10^309\<close>, which no double holds.
\<close>

lemma to_ascii_digits: "\<forall>c \<in> set ds. is_digit c \<Longrightarrow> to_ascii ds = ds"
  by (induction ds) (auto simp: is_digit_def)

lemma underscores_ok_digits:
  "\<forall>c \<in> set ds. is_digit c \<Longrightarrow> prev \<noteq> 95 \<Longrightarrow> underscores_ok prev ds"
  by (induction ds arbitrary: prev) (auto simp: is_digit_def)

lemma py_int_digits:
  assumes "ds \<noteq> []" "\<forall>c \<in> set ds. is_digit c"
  shows "py_int ds = Some (int (digits_val ds))"
proof -
  from assms obtain c cs where ds: "ds = c # cs" by (cases ds) auto
  with assms(2) have c: "is_digit c" by simp
  then have s: "dropWhile is_space ds = ds" "split_sign ds = (False, ds)"
    by (auto simp: ds is_digit_def is_space_def)
  from assms(2) have t: "takeWhile (\<lambda>c. is_digit c \<or> c = 95) ds = ds"
    "dropWhile (\<lambda>c. is_digit c \<or> c = 95) ds = []"
    "filter (\<lambda>c. c \<noteq> 95) ds = ds"
    by (auto simp: takeWhile_eq_all_conv filter_id_conv is_digit_def)
  from c have h: "hd ds \<noteq> 95" by (auto simp: ds is_digit_def)
  show ?thesis
    using assms(1) h underscores_ok_digits [OF assms(2), of 0]
    by (simp add: py_int_def to_ascii_digits [OF assms(2)] s t)
qed

lemma digits_val_replicate:
  "foldl (\<lambda>v c. 10 * v + (c - 48)) (v :: nat) (replicate n 48) = v * 10 ^ n"
  by (induction n arbitrary: v) simp_all

lemma digits_val_power: "digits_val (49 # replicate n 48) = 10 ^ n"
  by (simp add: digits_val_def digits_val_replicate)

lemma py_int_huge: "py_int huge_year_text = Some (10 ^ 309)"
proof -
  have "py_int huge_year_text = Some (int (digits_val huge_year_text))"
    by (rule py_int_digits) (simp_all add: huge_year_text_def is_digit_def)
  then show ?thesis by (simp add: huge_year_text_def digits_val_power)
qed

lemma int_to_float_huge: "int_to_float (10 ^ 309) = Inl OverflowError"
  by (simp add: int_to_float_def num_eval)

lemma int_to_float_2020: "int_to_float 2020 = Inr (Finite 2020)"
  by (simp add: int_to_float_def num_eval)

lemma int_to_float_1899: "int_to_float 1899 = Inr (Finite 1899)"
  by (simp add: int_to_float_def num_eval)

text \<open>
  An integer below \<open>2^53\<close> in absolute value is a double, and its conversion is exact; the
  year filter then returns exactly the rows of that year.
\<close>

lemma round_half_even_of_int: "round_half_even (of_int n) = n"
  by (simp add: round_half_even_def Let_def)

lemma nearest_double_exact:
  assumes "0 < n" "n < 2 ^ 53"
  shows "nearest_double (of_int n) = of_int n"
proof -
  have b: "bitlen n \<le> 53" using assms(2) by (simp add: bitlen_le_iff_power)
  have p: "0 < bitlen n"
    using assms(1) bitlen_eq_zero_iff [of n] bitlen_nonneg [of n] by linarith
  have l: "ilog2 (of_int n) = bitlen n - 1"
    using assms(1) by (simp add: ilog2_def)
  define k where "k = nat (53 - bitlen n)"
  have e: "max (ilog2 (of_int n)) (- 1022) - 52 = - int k"
    using b p by (simp add: l k_def)
  have u: "(2 :: rat) powi (- int k) = 1 / 2 ^ k"
    by (simp add: power_int_def inverse_eq_divide power_one_over)
  have "of_int n / (1 / 2 ^ k) = (of_int (n * 2 ^ k) :: rat)" by simp
  then have "round_half_even (of_int n / (1 / 2 ^ k)) = n * 2 ^ k"
    by (simp only: round_half_even_of_int)
  then show ?thesis
    by (simp add: nearest_double_def Let_def e u)
qed

lemma int_to_float_exact:
  assumes "\<bar>y\<bar> < 2 ^ 53"
  shows "int_to_float y = Inr (Finite (of_int y))"
proof (cases "y = 0")
  case True
  then show ?thesis by (simp add: int_to_float_def to_double_def)
next
  case False
  with assms have n: "0 < \<bar>y\<bar>" "\<bar>y\<bar> < 2 ^ 53" by simp_all
  have v: "nearest_double (of_int \<bar>y\<bar>) = of_int \<bar>y\<bar>"
    by (rule nearest_double_exact [OF n])
  have "(of_int \<bar>y\<bar> :: rat) < 2 ^ 53" using n(2) by (metis of_int_less_iff of_int_numeral of_int_power)
  also have "\<dots> < 2 ^ 1024" by simp
  finally have s: "\<not> (2 :: rat) ^ 1024 \<le> of_int \<bar>y\<bar>" by simp
  from False have z: "(of_int \<bar>y\<bar> :: rat) \<noteq> 0" by simp
  show ?thesis
    using s z False
    by (auto simp add: int_to_float_def to_double_def v Let_def simp del: of_int_abs)
qed

lemma filtered_year_exact:
  "\<bar>y\<bar> < 2 ^ 53 \<Longrightarrow> filtered_year df y = Inr (filter (\<lambda>m. year m = y) df)"
  by (rule filtered_year_filter [OF int_to_float_exact]) simp_all

subsection \<open>The bounds of a column\<close>

lemma fle_not_NaN: "fle a b \<Longrightarrow> a \<noteq> NaN \<and> b \<noteq> NaN"
  by (simp add: fle_def)

lemma fle_refl: "a \<noteq> NaN \<Longrightarrow> fle a a"
  by (simp add: fle_def)

lemma fle_total: "a \<noteq> NaN \<Longrightarrow> b \<noteq> NaN \<Longrightarrow> fle a b \<or> fle b a"
  by (auto simp: fle_def)

lemma fle_trans: "fle a b \<Longrightarrow> fle b c \<Longrightarrow> fle a c"
  by (auto simp: fle_def)

lemma greatest_exists:
  "ys \<noteq> [] \<Longrightarrow> NaN \<notin> set ys \<Longrightarrow> \<exists>x \<in> set ys. \<forall>y \<in> set ys. fle y x"
proof (induction ys)
  case Nil
  then show ?case by simp
next
  case (Cons a ys)
  show ?case
  proof (cases "ys = []")
    case True
    with Cons.prems show ?thesis by (simp add: fle_refl)
  next
    case False
    with Cons obtain x where x: "x \<in> set ys" "\<forall>y \<in> set ys. fle y x" by auto
    from Cons.prems x(1) have nn: "a \<noteq> NaN" "x \<noteq> NaN" by auto
    show ?thesis
    proof (cases "fle a x")
      case True
      with x show ?thesis by auto
    next
      case False
      with nn have ax: "fle x a" using fle_total by blast
      with x(2) have "\<forall>y \<in> set ys. fle y a" using fle_trans by blast
      with nn(1) show ?thesis by (auto simp: fle_refl)
    qed
  qed
qed

lemma least_exists:
  "ys \<noteq> [] \<Longrightarrow> NaN \<notin> set ys \<Longrightarrow> \<exists>x \<in> set ys. \<forall>y \<in> set ys. fle x y"
proof (induction ys)
  case Nil
  then show ?case by simp
next
  case (Cons a ys)
  show ?case
  proof (cases "ys = []")
    case True
    with Cons.prems show ?thesis by (simp add: fle_refl)
  next
    case False
    with Cons obtain x where x: "x \<in> set ys" "\<forall>y \<in> set ys. fle x y" by auto
    from Cons.prems x(1) have nn: "a \<noteq> NaN" "x \<noteq> NaN" by auto
    show ?thesis
    proof (cases "fle x a")
      case True
      with x show ?thesis by auto
    next
      case False
      with nn have ax: "fle a x" using fle_total by blast
      with x(2) have "\<forall>y \<in> set ys. fle a y" using fle_trans by blast
      with nn(1) show ?thesis by (auto simp: fle_refl)
    qed
  qed
qed

lemma pick_member: "zs \<noteq> [] \<Longrightarrow> zs ! (k mod length zs) \<in> set zs"
  by simp

text \<open>
  \<open>col_max\<close> is the maximum of the column: when the column has a value that is not \<open>NaN\<close>,
  the result is such a value of the column and no such value is above it; otherwise the
  result is \<open>NaN\<close>. Likewise \<open>col_min\<close> is the minimum.
\<close>

lemma col_max_greatest:
  assumes "\<exists>x \<in> set xs. x \<noteq> NaN"
  shows "col_max E xs \<in> set xs \<and> col_max E xs \<noteq> NaN
         \<and> (\<forall>y \<in> set xs. y \<noteq> NaN \<longrightarrow> fle y (col_max E xs))"
proof -
  define ys where "ys = filter (\<lambda>x. x \<noteq> NaN) xs"
  define zs where "zs = filter (\<lambda>x. \<forall>y \<in> set ys. fle y x) ys"
  from assms have "ys \<noteq> []" "NaN \<notin> set ys" by (auto simp: ys_def filter_empty_conv)
  from greatest_exists [OF this] have ne: "zs \<noteq> []" by (auto simp: zs_def filter_empty_conv)
  then have c: "col_max E xs = zs ! (tie_max E xs mod length zs)"
    by (simp add: col_max_def Let_def ys_def zs_def)
  from pick_member [OF ne] have "col_max E xs \<in> set zs" by (simp add: c)
  then show ?thesis by (auto simp: zs_def ys_def)
qed

lemma col_min_least:
  assumes "\<exists>x \<in> set xs. x \<noteq> NaN"
  shows "col_min E xs \<in> set xs \<and> col_min E xs \<noteq> NaN
         \<and> (\<forall>y \<in> set xs. y \<noteq> NaN \<longrightarrow> fle (col_min E xs) y)"
proof -
  define ys where "ys = filter (\<lambda>x. x \<noteq> NaN) xs"
  define zs where "zs = filter (\<lambda>x. \<forall>y \<in> set ys. fle x y) ys"
  from assms have "ys \<noteq> []" "NaN \<notin> set ys" by (auto simp: ys_def filter_empty_conv)
  from least_exists [OF this] have ne: "zs \<noteq> []" by (auto simp: zs_def filter_empty_conv)
  then have c: "col_min E xs = zs ! (tie_min E xs mod length zs)"
    by (simp add: col_min_def Let_def ys_def zs_def)
  from pick_member [OF ne] have "col_min E xs \<in> set zs" by (simp add: c)
  then show ?thesis by (auto simp: zs_def ys_def)
qed

lemma col_bounds_all_NaN:
  assumes "\<forall>x \<in> set xs. x = NaN"
  shows "col_min E xs = NaN" "col_max E xs = NaN"
proof -
  from assms have "filter (\<lambda>x. x \<noteq> NaN) xs = []" by (auto simp: filter_empty_conv)
  then show "col_min E xs = NaN" "col_max E xs = NaN"
    by (simp_all add: col_min_def col_max_def)
qed

lemma col_max_member: "col_max E xs \<noteq> NaN \<Longrightarrow> col_max E xs \<in> set xs"
  using col_max_greatest [of xs E] col_bounds_all_NaN(2) [of xs E] by blast

lemma col_min_member: "col_min E xs \<noteq> NaN \<Longrightarrow> col_min E xs \<in> set xs"
  using col_min_least [of xs E] col_bounds_all_NaN(1) [of xs E] by blast

text \<open>
  Two bounds that compare equal print the same, but for the sign of zero: \<open>0.0\<close> and \<open>-0.0\<close>
  are the only two different values that are equal.
\<close>

lemma feq_cases:
  "feq a b \<longleftrightarrow> a \<noteq> NaN \<and> b \<noteq> NaN \<and> (a = b \<or> (a \<in> {Finite 0, NegZero} \<and> b \<in> {Finite 0, NegZero}))"
  by (cases a; cases b) (auto simp: feq_def fle_def)

lemma validated_rating_candidate:
  assumes "fle r (col_max E (map vote_average df))"
  shows "\<exists>m \<in> set (filtered_rating df r). vote_average m = col_max E (map vote_average df)"
proof -
  from assms have "col_max E (map vote_average df) \<noteq> NaN" by (simp add: fle_def)
  then have "col_max E (map vote_average df) \<in> set (map vote_average df)" by (rule col_max_member)
  then obtain m where m: "m \<in> set df" "vote_average m = col_max E (map vote_average df)" by auto
  with assms have "m \<in> set (filtered_rating df r)"
    by (simp add: filtered_rating_filter fge_def)
  with m show ?thesis by blast
qed

section \<open>The input handlers\<close>

subsection \<open>The outcomes of the three input handlers\<close>

lemma resolve_rating_empty:
  "filtered_rating df r = [] \<Longrightarrow>
   resolve_rating E df rnd r = Inr ([ReplyText txt_rating_not_found None False], RATING)"
  by (simp add: resolve_rating_def)

lemma resolve_rating_nonempty:
  assumes "filtered_rating df r \<noteq> []"
  shows "\<exists>m \<in> set (filtered_rating df r). resolve_rating E df rnd r =
           (case send_movie_info E True m (txt_rating_header @ fmt_1f r @ asc ''+'') of
              Inl e \<Rightarrow> Inl e | Inr sent \<Rightarrow> Inr (sent, END))"
proof -
  from assms obtain m where "m \<in> set (filtered_rating df r)"
    "sample1 rnd (filtered_rating df r) = Inr m"
    using sample1_member by blast
  with assms show ?thesis by (auto simp: resolve_rating_def)
qed

lemma process_rating_None:
  "py_float text = None \<Longrightarrow>
   process_rating E df rnd text = Inr ([ReplyText txt_rating_not_number None False], RATING)"
  by (simp add: process_rating_def)

lemma process_rating_outside:
  "py_float text = Some r \<Longrightarrow>
   \<not> (fle (col_min E (map vote_average df)) r \<and> fle r (col_max E (map vote_average df))) \<Longrightarrow>
   process_rating E df rnd text =
     Inr ([ReplyText (txt_rating_range_1 @ fmt_1f (col_min E (map vote_average df))
                      @ txt_rating_range_2 @ fmt_1f (col_max E (map vote_average df)))
             None False], RATING)"
  by (simp add: process_rating_def)

lemma process_rating_inside:
  "py_float text = Some r \<Longrightarrow>
   fle (col_min E (map vote_average df)) r \<Longrightarrow> fle r (col_max E (map vote_average df)) \<Longrightarrow>
   process_rating E df rnd text = resolve_rating E df rnd r"
  by (simp add: process_rating_def)

lemma process_year_None:
  "py_int text = None \<Longrightarrow>
   process_year E df rnd text = Inr ([ReplyText txt_year_not_int None False], YEAR)"
  by (simp add: process_year_def)

lemma process_year_raises:
  "py_int text = Some y \<Longrightarrow> filtered_year df y = Inl e \<Longrightarrow>
   process_year E df rnd text = Inl e"
  by (simp add: process_year_def)

lemma process_year_empty:
  "py_int text = Some y \<Longrightarrow> filtered_year df y = Inr [] \<Longrightarrow>
   process_year E df rnd text =
     Inr ([ReplyText (txt_year_1 @ str_int y @ txt_year_not_found_2) None False], YEAR)"
  by (simp add: process_year_def)

lemma process_year_nonempty:
  assumes "py_int text = Some y" "filtered_year df y = Inr rows" "rows \<noteq> []"
  shows "\<exists>m \<in> set rows. process_year E df rnd text =
           (case send_movie_info E True m (txt_year_header_1 @ str_int y @ txt_year_header_2) of
              Inl e \<Rightarrow> Inl e | Inr sent \<Rightarrow> Inr (sent, END))"
proof -
  from assms obtain m where "m \<in> set rows" "sample1 rnd rows = Inr m"
    using sample1_member by blast
  with assms show ?thesis by (auto simp: process_year_def)
qed

lemma process_popularity_None:
  "py_float text = None \<Longrightarrow>
   process_popularity E df rnd text =
     Inr ([ReplyText txt_popularity_not_number None False], POPULARITY)"
  by (simp add: process_popularity_def)

lemma process_popularity_empty:
  "py_float text = Some p \<Longrightarrow> filtered_popularity df p = [] \<Longrightarrow>
   process_popularity E df rnd text =
     Inr ([ReplyText (txt_popularity_1 @ str_float E p @ txt_popularity_not_found_2)
             None False], POPULARITY)"
  by (simp add: process_popularity_def)

lemma process_popularity_nonempty:
  assumes "py_float text = Some p" "filtered_popularity df p \<noteq> []"
  shows "\<exists>m \<in> set (filtered_popularity df p). process_popularity E df rnd text =
           (case send_movie_info E True m (txt_popularity_header @ str_float E p @ asc '':'') of
              Inl e \<Rightarrow> Inl e | Inr sent \<Rightarrow> Inr (sent, END))"
proof -
  from assms obtain m where "m \<in> set (filtered_popularity df p)"
    "sample1 rnd (filtered_popularity df p) = Inr m"
    using sample1_member by blast
  with assms show ?thesis by (auto simp: process_popularity_def)
qed

lemma process_rating_validated:
  assumes "py_float text = Some r"
    and "fle (col_min E (map vote_average df)) r" and "fle r (col_max E (map vote_average df))"
  shows "\<exists>m \<in> set (filtered_rating df r). process_rating E df rnd text =
           (case send_movie_info E True m (txt_rating_header @ fmt_1f r @ asc ''+'') of
              Inl e \<Rightarrow> Inl e | Inr sent \<Rightarrow> Inr (sent, END))"
proof -
  from validated_rating_candidate [OF assms(3)] have "filtered_rating df r \<noteq> []" by auto
  from resolve_rating_nonempty [OF this] process_rating_inside [OF assms]
  show ?thesis by simp
qed

lemma states_differ: "END \<noteq> RATING" "END \<noteq> YEAR" "END \<noteq> POPULARITY"
  "RATING \<noteq> YEAR" "RATING \<noteq> POPULARITY" "YEAR \<noteq> POPULARITY"
  by (simp_all add: END_def RATING_def YEAR_def POPULARITY_def)

lemma send_then_END_not_RATING:
  "(case send_movie_info E hm m prefix of Inl e \<Rightarrow> Inl e | Inr sent \<Rightarrow> Inr (sent, END))
   \<noteq> Inr (x, RATING)"
  using states_differ by (simp split: sum.split)

lemma rating_texts_differ:
  "txt_rating_not_number \<noteq> txt_rating_not_found"
  "txt_rating_range_1 @ a \<noteq> txt_rating_not_found"
  by (simp_all add: txt_rating_not_number_def txt_rating_not_found_def txt_rating_range_1_def)

text \<open>
  Claim C10. When the rating has passed validation, a movie whose rating is the maximum of
  the catalog is among the candidates, so the candidate list is not empty; and for no input
  at all does \<open>process_rating\<close> answer with its ``not found'' message.
\<close>

theorem rating_not_found_unreachable:
  "(\<forall>r. py_float text = Some r \<and> fle (col_min E (map vote_average df)) r
          \<and> fle r (col_max E (map vote_average df)) \<longrightarrow>
        (\<exists>m \<in> set (filtered_rating df r). vote_average m = col_max E (map vote_average df)))
   \<and> process_rating E df rnd text \<noteq> Inr ([ReplyText txt_rating_not_found None False], RATING)"
proof (intro conjI allI impI)
  fix r
  assume "py_float text = Some r \<and> fle (col_min E (map vote_average df)) r
          \<and> fle r (col_max E (map vote_average df))"
  then show "\<exists>m \<in> set (filtered_rating df r). vote_average m = col_max E (map vote_average df)"
    using validated_rating_candidate [of _ E df] by blast
next
  show "process_rating E df rnd text \<noteq> Inr ([ReplyText txt_rating_not_found None False], RATING)"
  proof (cases "py_float text")
    case None
    then show ?thesis using rating_texts_differ(1) by (simp add: process_rating_None)
  next
    case (Some r)
    show ?thesis
    proof (cases "fle (col_min E (map vote_average df)) r \<and> fle r (col_max E (map vote_average df))")
      case True
      then have "fle (col_min E (map vote_average df)) r" "fle r (col_max E (map vote_average df))"
        by simp_all
      from process_rating_validated [OF Some this]
      obtain m where "process_rating E df rnd text =
          (case send_movie_info E True m (txt_rating_header @ fmt_1f r @ asc ''+'') of
             Inl e \<Rightarrow> Inl e | Inr sent \<Rightarrow> Inr (sent, END))"
        by blast
      then show ?thesis using send_then_END_not_RATING by simp
    next
      case False
      from process_rating_outside [OF Some False] rating_texts_differ(2)
      show ?thesis by (simp del: append_assoc)
    qed
  qed
qed

lemma example_bounds:
  "col_min example_env (map vote_average example_df) = Finite 3"
  "col_max example_env (map vote_average example_df) = Finite (17 / 2)"
  by (simp_all add: example_df_def example_env_def col_min_def col_max_def fle_def Let_def)

lemma str_nat_eval:
  "str_nat (numeral k) =
     (if (numeral k :: nat) < 10 then [48 + numeral k]
      else str_nat (numeral k div 10) @ [48 + numeral k mod 10])"
  "str_nat 0 = [48]" "str_nat 1 = [49]" "str_nat (Suc 0) = [49]"
  by (subst str_nat.simps, simp)+

lemmas fmt_eval = fmt_1f_abs_def str_int_def str_nat_eval floor_rat_numeral_div
  round_half_even_def Let_def asc_Nil asc_Cons

lemma fmt_1f_abs_3: "fmt_1f_abs 3 = asc ''3.0''"
  by (simp add: fmt_eval)

lemma fmt_1f_abs_8_5: "fmt_1f_abs (17 / 2) = asc ''8.5''"
  by (simp add: fmt_eval)

text \<open>The rating 7.5 on the example catalog.\<close>

theorem rating_not_found_unreachable_witness:
  "py_float (asc ''7.5'') = Some (Finite (15 / 2))
   \<and> fle (col_min example_env (map vote_average example_df)) (Finite (15 / 2))
   \<and> fle (Finite (15 / 2)) (col_max example_env (map vote_average example_df))
   \<and> (\<exists>m \<in> set (filtered_rating example_df (Finite (15 / 2))).
         vote_average m = col_max example_env (map vote_average example_df))
   \<and> process_rating example_env example_df 0 (asc ''7.5'')
       \<noteq> Inr ([ReplyText txt_rating_not_found None False], RATING)"
proof -
  have "fle (col_min example_env (map vote_average example_df)) (Finite (15 / 2))"
    "fle (Finite (15 / 2)) (col_max example_env (map vote_average example_df))"
    by (simp_all add: example_bounds fle_def)
  with py_float_7_5
    rating_not_found_unreachable [where ?text = "asc ''7.5''" and ?df = example_df
      and ?E = example_env and ?rnd = 0]
  show ?thesis by blast
qed

text \<open>
  Claim C3. \<open>process_rating\<close> goes on to the filter exactly when the text parses as a float
  \<open>r\<close> with \<open>min <= r <= max\<close>, both bounds inclusive; then it presents a candidate and ends
  the conversation. Otherwise it answers with a corrective prompt and stays in \<open>RATING\<close>.
  The bounds are the least and the greatest \<open>vote_average\<close> of the catalog: no rating of a
  row is below the one or above the other, each is the rating of some row, and each is
  \<open>NaN\<close> exactly when no row has a rating. With the bounds 3.0 and 8.5, the texts 7.5 and
  8.5 pass, 2.9 is out of range and abc is not a number.
\<close>

theorem rating_validation:
  "(py_float text = None \<longrightarrow>
      process_rating E df rnd text = Inr ([ReplyText txt_rating_not_number None False], RATING))
   \<and> (\<forall>r. py_float text = Some r \<longrightarrow>
        (fle (col_min E (map vote_average df)) r \<and> fle r (col_max E (map vote_average df)) \<longrightarrow>
           process_rating E df rnd text = resolve_rating E df rnd r
           \<and> (\<exists>m \<in> set (filtered_rating df r). process_rating E df rnd text =
                 (case send_movie_info E True m (txt_rating_header @ fmt_1f r @ asc ''+'') of
                    Inl e \<Rightarrow> Inl e | Inr sent \<Rightarrow> Inr (sent, END))))
        \<and> (\<not> (fle (col_min E (map vote_average df)) r \<and> fle r (col_max E (map vote_average df)))
           \<longrightarrow> process_rating E df rnd text =
               Inr ([ReplyText (txt_rating_range_1 @ fmt_1f (col_min E (map vote_average df))
                                @ txt_rating_range_2 @ fmt_1f (col_max E (map vote_average df)))
                       None False], RATING)))
   \<and> (\<forall>m \<in> set df. vote_average m \<noteq> NaN \<longrightarrow>
        fle (col_min E (map vote_average df)) (vote_average m)
        \<and> fle (vote_average m) (col_max E (map vote_average df)))
   \<and> ((\<exists>m \<in> set df. vote_average m \<noteq> NaN) \<longrightarrow>
        (\<exists>m \<in> set df. vote_average m = col_min E (map vote_average df))
        \<and> (\<exists>m \<in> set df. vote_average m = col_max E (map vote_average df)))
   \<and> (col_min E (map vote_average df) = NaN \<longleftrightarrow> (\<forall>m \<in> set df. vote_average m = NaN))
   \<and> (col_max E (map vote_average df) = NaN \<longleftrightarrow> (\<forall>m \<in> set df. vote_average m = NaN))
   \<and> (col_min E (map vote_average df) = Finite 3 \<and> col_max E (map vote_average df) = Finite (17 / 2)
        \<longrightarrow> process_rating E df rnd (asc ''7.5'') = resolve_rating E df rnd (Finite (15 / 2))
          \<and> process_rating E df rnd (asc ''8.5'') = resolve_rating E df rnd (Finite (17 / 2))
          \<and> process_rating E df rnd (asc ''2.9'') =
              Inr ([ReplyText (txt_rating_range_1 @ asc ''3.0'' @ txt_rating_range_2 @ asc ''8.5'')
                      None False], RATING)
          \<and> process_rating E df rnd (asc ''abc'') =
              Inr ([ReplyText txt_rating_not_number None False], RATING))"
proof (intro conjI impI allI ballI)
  assume "py_float text = None"
  then show "process_rating E df rnd text =
      Inr ([ReplyText txt_rating_not_number None False], RATING)"
    by (rule process_rating_None)
next
  fix m
  assume m: "m \<in> set df" "vote_average m \<noteq> NaN"
  then have "\<exists>x \<in> set (map vote_average df). x \<noteq> NaN" by auto
  from col_min_least [OF this, of E] col_max_greatest [OF this, of E] m
  show "fle (col_min E (map vote_average df)) (vote_average m)"
    and "fle (vote_average m) (col_max E (map vote_average df))"
    by auto
next
  assume "\<exists>m \<in> set df. vote_average m \<noteq> NaN"
  then have "\<exists>x \<in> set (map vote_average df). x \<noteq> NaN" by auto
  from col_min_least [OF this, of E] col_max_greatest [OF this, of E]
  show "\<exists>m \<in> set df. vote_average m = col_min E (map vote_average df)"
    and "\<exists>m \<in> set df. vote_average m = col_max E (map vote_average df)"
    by auto
next
  show "col_min E (map vote_average df) = NaN \<longleftrightarrow> (\<forall>m \<in> set df. vote_average m = NaN)"
    using col_min_least [of "map vote_average df" E]
      col_bounds_all_NaN(1) [of "map vote_average df" E]
    by auto
next
  show "col_max E (map vote_average df) = NaN \<longleftrightarrow> (\<forall>m \<in> set df. vote_average m = NaN)"
    using col_max_greatest [of "map vote_average df" E]
      col_bounds_all_NaN(2) [of "map vote_average df" E]
    by auto
next
  fix r
  assume p: "py_float text = Some r"
    and b: "fle (col_min E (map vote_average df)) r \<and> fle r (col_max E (map vote_average df))"
  from b have b': "fle (col_min E (map vote_average df)) r" "fle r (col_max E (map vote_average df))"
    by simp_all
  show "process_rating E df rnd text = resolve_rating E df rnd r"
    by (rule process_rating_inside [OF p b'])
  show "\<exists>m \<in> set (filtered_rating df r). process_rating E df rnd text =
          (case send_movie_info E True m (txt_rating_header @ fmt_1f r @ asc ''+'') of
             Inl e \<Rightarrow> Inl e | Inr sent \<Rightarrow> Inr (sent, END))"
    by (rule process_rating_validated [OF p b'])
next
  fix r
  assume p: "py_float text = Some r"
    and b: "\<not> (fle (col_min E (map vote_average df)) r \<and> fle r (col_max E (map vote_average df)))"
  show "process_rating E df rnd text =
          Inr ([ReplyText (txt_rating_range_1 @ fmt_1f (col_min E (map vote_average df))
                           @ txt_rating_range_2 @ fmt_1f (col_max E (map vote_average df)))
                  None False], RATING)"
    by (rule process_rating_outside [OF p b])
next
  assume b: "col_min E (map vote_average df) = Finite 3 \<and> col_max E (map vote_average df) = Finite (17 / 2)"
  show "process_rating E df rnd (asc ''7.5'') = resolve_rating E df rnd (Finite (15 / 2))"
    using b by (simp add: process_rating_inside [OF py_float_7_5] fle_def)
  show "process_rating E df rnd (asc ''8.5'') = resolve_rating E df rnd (Finite (17 / 2))"
    using b by (simp add: process_rating_inside [OF py_float_8_5] fle_def)
  show "process_rating E df rnd (asc ''2.9'') =
          Inr ([ReplyText (txt_rating_range_1 @ asc ''3.0'' @ txt_rating_range_2 @ asc ''8.5'')
                  None False], RATING)"
  proof -
    have "\<not> (fle (col_min E (map vote_average df)) (Finite (6530219459687219 / 2251799813685248))
             \<and> fle (Finite (6530219459687219 / 2251799813685248)) (col_max E (map vote_average df)))"
      using b by (simp add: fle_def)
    from process_rating_outside [OF py_float_2_9 this] b show ?thesis
      by (simp add: fmt_1f_abs_3 fmt_1f_abs_8_5)
  qed
  show "process_rating E df rnd (asc ''abc'') =
          Inr ([ReplyText txt_rating_not_number None False], RATING)"
    by (simp add: process_rating_None [OF py_float_abc])
qed

text \<open>
  The four texts on the example catalog, whose bounds are 3.0 and 8.5, the ratings of its
  first and last row; and a catalog of one row without a rating, whose bounds are \<open>NaN\<close>.
\<close>

theorem rating_validation_witness:
  "py_float (asc ''7.5'') = Some (Finite (15 / 2))
   \<and> col_min example_env (map vote_average example_df) = Finite 3
   \<and> col_max example_env (map vote_average example_df) = Finite (17 / 2)
   \<and> process_rating example_env example_df 0 (asc ''7.5'')
       = resolve_rating example_env example_df 0 (Finite (15 / 2))
   \<and> (\<exists>m \<in> set (filtered_rating example_df (Finite (15 / 2))).
         process_rating example_env example_df 0 (asc ''7.5'') =
           (case send_movie_info example_env True m
                   (txt_rating_header @ fmt_1f (Finite (15 / 2)) @ asc ''+'') of
              Inl e \<Rightarrow> Inl e | Inr sent \<Rightarrow> Inr (sent, END)))
   \<and> process_rating example_env example_df 0 (asc ''8.5'')
       = resolve_rating example_env example_df 0 (Finite (17 / 2))
   \<and> process_rating example_env example_df 0 (asc ''2.9'') =
       Inr ([ReplyText (txt_rating_range_1 @ asc ''3.0'' @ txt_rating_range_2 @ asc ''8.5'')
               None False], RATING)
   \<and> process_rating example_env example_df 0 (asc ''abc'') =
       Inr ([ReplyText txt_rating_not_number None False], RATING)
   \<and> vote_average (example_df ! 1) = Finite (15 / 2)
   \<and> fle (col_min example_env (map vote_average example_df)) (vote_average (example_df ! 1))
   \<and> fle (vote_average (example_df ! 1)) (col_max example_env (map vote_average example_df))
   \<and> vote_average (example_df ! 0) = col_min example_env (map vote_average example_df)
   \<and> vote_average (example_df ! 2) = col_max example_env (map vote_average example_df)
   \<and> col_min example_env (map vote_average [(example_df ! 0)\<lparr>vote_average := NaN\<rparr>]) = NaN
   \<and> col_max example_env (map vote_average [(example_df ! 0)\<lparr>vote_average := NaN\<rparr>]) = NaN"
proof -
  note t = rating_validation [where ?text = "asc ''7.5''" and ?E = example_env
      and ?df = example_df and ?rnd = 0]
  have b: "fle (col_min example_env (map vote_average example_df)) (Finite (15 / 2))
        \<and> fle (Finite (15 / 2)) (col_max example_env (map vote_average example_df))"
    by (simp add: example_bounds fle_def)
  from t py_float_7_5 b
  have a1: "process_rating example_env example_df 0 (asc ''7.5'')
       = resolve_rating example_env example_df 0 (Finite (15 / 2))"
    and a2: "\<exists>m \<in> set (filtered_rating example_df (Finite (15 / 2))).
         process_rating example_env example_df 0 (asc ''7.5'') =
           (case send_movie_info example_env True m
                   (txt_rating_header @ fmt_1f (Finite (15 / 2)) @ asc ''+'') of
              Inl e \<Rightarrow> Inl e | Inr sent \<Rightarrow> Inr (sent, END))"
    by blast+
  from t example_bounds
  have a3: "process_rating example_env example_df 0 (asc ''8.5'')
       = resolve_rating example_env example_df 0 (Finite (17 / 2))"
    and a4: "process_rating example_env example_df 0 (asc ''2.9'') =
       Inr ([ReplyText (txt_rating_range_1 @ asc ''3.0'' @ txt_rating_range_2 @ asc ''8.5'')
               None False], RATING)"
    and a5: "process_rating example_env example_df 0 (asc ''abc'') =
       Inr ([ReplyText txt_rating_not_number None False], RATING)"
    by blast+
  have m: "example_df ! 1 \<in> set example_df" "vote_average (example_df ! 1) = Finite (15 / 2)"
    "vote_average (example_df ! 0) = Finite 3" "vote_average (example_df ! 2) = Finite (17 / 2)"
    by (simp_all add: example_df_def)
  then have "vote_average (example_df ! 1) \<noteq> NaN" by simp
  with t m(1)
  have a6: "fle (col_min example_env (map vote_average example_df)) (vote_average (example_df ! 1))"
    and a7: "fle (vote_average (example_df ! 1)) (col_max example_env (map vote_average example_df))"
    by blast+
  have "\<forall>m \<in> set [(example_df ! 0)\<lparr>vote_average := NaN\<rparr>]. vote_average m = NaN"
    by simp
  with rating_validation [where ?text = "asc ''7.5''" and ?E = example_env
      and ?df = "[(example_df ! 0)\<lparr>vote_average := NaN\<rparr>]" and ?rnd = 0]
  have a8: "col_min example_env (map vote_average [(example_df ! 0)\<lparr>vote_average := NaN\<rparr>]) = NaN"
    and a9: "col_max example_env (map vote_average [(example_df ! 0)\<lparr>vote_average := NaN\<rparr>]) = NaN"
    by blast+
  from py_float_7_5 example_bounds a1 a2 a3 a4 a5 a6 a7 a8 a9 m(2)
  show ?thesis by (simp only: m(3,4) simp_thms)
qed

text \<open>
  Claim C8. \<open>process_popularity\<close> rejects the text exactly when it does not parse as a
  float. Every parsed value goes to the filter, whatever its sign or size: -5 parses and is
  filtered on like any other value.
\<close>

theorem popularity_validation:
  "(py_float text = None \<longrightarrow>
      process_popularity E df rnd text =
        Inr ([ReplyText txt_popularity_not_number None False], POPULARITY))
   \<and> (\<forall>p. py_float text = Some p \<longrightarrow>
        (filtered_popularity df p = [] \<longrightarrow>
           process_popularity E df rnd text =
             Inr ([ReplyText (txt_popularity_1 @ str_float E p @ txt_popularity_not_found_2)
                     None False], POPULARITY))
        \<and> (filtered_popularity df p \<noteq> [] \<longrightarrow>
           (\<exists>m \<in> set (filtered_popularity df p). process_popularity E df rnd text =
              (case send_movie_info E True m (txt_popularity_header @ str_float E p @ asc '':'') of
                 Inl e \<Rightarrow> Inl e | Inr sent \<Rightarrow> Inr (sent, END)))))
   \<and> txt_popularity_1 @ s @ txt_popularity_not_found_2 \<noteq> txt_popularity_not_number
   \<and> py_float (asc ''-5'') = Some (Finite (- 5))
   \<and> set (filtered_popularity df (Finite (- 5)))
       = {m \<in> set df. fge (popularity m) (Finite (- 5))}"
proof (intro conjI impI allI)
  show "txt_popularity_1 @ s @ txt_popularity_not_found_2 \<noteq> txt_popularity_not_number"
    by (simp add: txt_popularity_1_def txt_popularity_not_number_def)
  show "py_float (asc ''-5'') = Some (Finite (- 5))" by (rule py_float_minus_5)
  show "set (filtered_popularity df (Finite (- 5)))
       = {m \<in> set df. fge (popularity m) (Finite (- 5))}"
    by (simp add: filtered_popularity_filter)
qed (simp_all add: process_popularity_None process_popularity_empty process_popularity_nonempty)

section \<open>The conversation\<close>

lemmas dispatch_defs = process_update_def check_update_def matches_command_def
  matches_pattern_def matches_text_def entry_points_def fallbacks_def states_def
  allow_reentry_def run_handler_def text_of_def

lemma update_state_simps:
  "update_state END = None" "update_state RATING = Some RATING"
  "update_state YEAR = Some YEAR" "update_state POPULARITY = Some POPULARITY"
  by (simp_all add: update_state_def END_def RATING_def YEAR_def POPULARITY_def)

lemma process_update_text_rating:
  "process_update E df rnd first_name (Some RATING) (TextMessage t) =
     (case process_rating E df rnd t of
        Inl e \<Rightarrow> Inl e | Inr (sent, new_state) \<Rightarrow> Inr (sent, update_state new_state))"
  by (simp add: dispatch_defs)

lemma process_update_text_year:
  "process_update E df rnd first_name (Some YEAR) (TextMessage t) =
     (case process_year E df rnd t of
        Inl e \<Rightarrow> Inl e | Inr (sent, new_state) \<Rightarrow> Inr (sent, update_state new_state))"
  using states_differ by (simp add: dispatch_defs)

lemma process_update_text_popularity:
  "process_update E df rnd first_name (Some POPULARITY) (TextMessage t) =
     (case process_popularity E df rnd t of
        Inl e \<Rightarrow> Inl e | Inr (sent, new_state) \<Rightarrow> Inr (sent, update_state new_state))"
  using states_differ by (simp add: dispatch_defs)

lemma asc_words_differ:
  "asc ''cancel'' \<noteq> asc ''start''"
  "asc ''rating'' \<noteq> asc ''random''" "asc ''rating'' \<noteq> asc ''about''" "asc ''rating'' \<noteq> asc ''back''"
  "asc ''year'' \<noteq> asc ''random''" "asc ''year'' \<noteq> asc ''about''" "asc ''year'' \<noteq> asc ''back''"
  "asc ''year'' \<noteq> asc ''rating''"
  "asc ''popularity'' \<noteq> asc ''random''" "asc ''popularity'' \<noteq> asc ''about''"
  "asc ''popularity'' \<noteq> asc ''back''" "asc ''popularity'' \<noteq> asc ''rating''"
  "asc ''popularity'' \<noteq> asc ''year''"
  by (simp_all add: asc_Nil asc_Cons)

lemma process_update_select:
  "process_update E df rnd first_name state (CallbackQuery (asc ''rating'')) =
     Inr (fst (choose_rating E df), Some RATING)"
  "process_update E df rnd first_name state (CallbackQuery (asc ''year'')) =
     Inr ([Answer, EditText txt_ask_year None False], Some YEAR)"
  "process_update E df rnd first_name state (CallbackQuery (asc ''popularity'')) =
     Inr ([Answer, EditText txt_ask_popularity None False], Some POPULARITY)"
  by (simp_all add: dispatch_defs asc_Nil asc_Cons choose_rating_def choose_year_def
      choose_popularity_def update_state_simps Let_def)

lemma process_update_cancel:
  "process_update E df rnd first_name (Some s) (Command (asc ''cancel'')) =
     Inr ([ReplyText txt_cancelled None False], None)"
  "process_update E df rnd first_name None (Command (asc ''cancel'')) = Inr ([], None)"
  by (simp_all add: dispatch_defs asc_Nil asc_Cons lower_def cancel_def update_state_simps)

lemma process_update_random:
  "process_update E df rnd first_name state (CallbackQuery (asc ''random'')) =
     (case random_movie E df rnd of Inl e \<Rightarrow> Inl e | Inr sent \<Rightarrow> Inr (sent, state))"
  by (simp add: dispatch_defs asc_Nil asc_Cons)

lemma random_movie_nonempty:
  assumes "df \<noteq> []"
  shows "\<exists>m \<in> set df. random_movie E df rnd =
           (case send_movie_info E True m txt_random_header of
              Inl e \<Rightarrow> Inl e | Inr sent \<Rightarrow> Inr (Answer # sent))"
proof -
  from assms obtain m where "m \<in> set df" "sample1 rnd df = Inr m"
    using sample1_member by blast
  with assms show ?thesis by (auto simp: random_movie_def)
qed

section \<open>The presenter\<close>

text \<open>
  What \<open>_send_movie_info\<close> sends for a movie whose overview is a string
  (\<open>send_movie_info_text\<close>): after the header, the title, the year, the rating with the
  vote count, the popularity printed with \<open>.1f\<close>, the overview, cut to
  \<open>MAX_OVERVIEW_LENGTH\<close> code points and followed by three dots exactly when it is longer
  than that, and the poster reference exactly when the poster path is a string. The text of
  \<open>.1f\<close> is digits, a point and one digit, at most 0.05 away from the value
  (\<open>fmt_1f_abs_one_place\<close>). An overview that is no string raises \<open>TypeError\<close>
  (\<open>send_movie_info_no_overview\<close>).
\<close>

lemma round_half_even_close: "\<bar>of_int (round_half_even x) - x\<bar> \<le> 1 / 2"
proof -
  have "of_int \<lfloor>x\<rfloor> \<le> x" "x < of_int \<lfloor>x\<rfloor> + 1" by linarith+
  then show ?thesis by (auto simp: round_half_even_def Let_def)
qed

lemma round_half_even_nonneg: "0 \<le> x \<Longrightarrow> 0 \<le> round_half_even x"
  by (auto simp: round_half_even_def Let_def)

lemma str_nat_digits: "list_all is_digit (str_nat n)"
proof (induction n rule: str_nat.induct)
  case (1 n)
  show ?case
  proof (cases "n < 10")
    case True
    then show ?thesis by (subst str_nat.simps) (simp add: is_digit_def)
  next
    case False
    with 1 have "list_all is_digit (str_nat (n div 10))" by simp
    moreover have "n mod 10 < 10" by simp
    ultimately show ?thesis using False
      by (subst str_nat.simps) (simp add: is_digit_def)
  qed
qed

lemma fmt_1f_abs_one_place:
  "\<exists>k d. d < 10 \<and> fmt_1f_abs q = str_nat k @ [46, 48 + d]
         \<and> \<bar>of_nat k + of_nat d / 10 - \<bar>q\<bar>\<bar> \<le> 1 / 20"
proof -
  define n where "n = nat (round_half_even (\<bar>q\<bar> * 10))"
  have nn: "0 \<le> round_half_even (\<bar>q\<bar> * 10)" by (rule round_half_even_nonneg) simp
  then have n: "(of_nat n :: rat) = of_int (round_half_even (\<bar>q\<bar> * 10))"
    by (simp add: n_def)
  have "(of_nat (n div 10) :: rat) * 10 + of_nat (n mod 10) = of_nat n"
    by (metis div_mult_mod_eq of_nat_add of_nat_mult of_nat_numeral)
  then have "\<bar>(of_nat (n div 10) :: rat) + of_nat (n mod 10) / 10 - \<bar>q\<bar>\<bar>
             = \<bar>of_nat n - \<bar>q\<bar> * 10\<bar> / 10"
    by (simp add: field_simps abs_if)
  also have "\<dots> \<le> (1 / 2) / 10"
    using round_half_even_close [of "\<bar>q\<bar> * 10"] unfolding n [symmetric]
    by (intro divide_right_mono) simp_all
  finally have "\<bar>(of_nat (n div 10) :: rat) + of_nat (n mod 10) / 10 - \<bar>q\<bar>\<bar> \<le> 1 / 20"
    by simp
  moreover have "fmt_1f_abs q = str_nat (n div 10) @ [46, 48 + n mod 10]"
    by (simp add: fmt_1f_abs_def n_def Let_def)
  moreover have "n mod 10 < 10" by simp
  ultimately show ?thesis by blast
qed

lemma slice_to_nonneg: "0 \<le> n \<Longrightarrow> slice_to s n = take (nat n) s"
  by (simp add: slice_to_def)

lemma send_movie_info_text:
  assumes "overview mv = Str ov"
  shows "send_movie_info E hm mv prefix =
     Inr [(if hm then ReplyText else EditText)
            (prefix @ txt_info_title @ str_cell E (title mv) @ txt_info_year
             @ str_int (year mv) @ txt_info_rating @ str_float64 E (vote_average mv)
             @ txt_info_votes @ str_number E (vote_count mv) @ txt_info_popularity
             @ fmt_1f (popularity mv) @ txt_info_end @ txt_overview_open
             @ (if MAX_OVERVIEW_LENGTH E < int (length ov)
                then slice_to ov (MAX_OVERVIEW_LENGTH E) @ asc ''...'' else ov)
             @ txt_overview_close
             @ (case poster_path mv of
                  Str p \<Rightarrow> txt_poster_open @ p @ txt_poster_close | _ \<Rightarrow> []))
            (Some movie_keyboard) True]"
  using assms
  by (cases "poster_path mv")
    (simp_all add: send_movie_info_def Let_def notna_def is_str_def str_cell_def)

lemma send_movie_info_no_overview:
  "\<not> is_str (overview mv) \<Longrightarrow> send_movie_info E hm mv prefix = Inl TypeError"
  by (cases "overview mv") (simp_all add: send_movie_info_def is_str_def)

lemma example_df_nth:
  "example_df ! 0 = \<lparr>title = Str (asc ''Alpha''), overview = Str (asc ''A quiet film.''),
       year = 1999, popularity = Finite (21 / 2), vote_average = Finite 3, vote_count = IntVal 10,
       poster_path = Str (asc ''/alpha.jpg'')\<rparr>"
  "example_df ! 1 = \<lparr>title = Str (asc ''Beta''), overview = Str (asc ''A loud film.''),
       year = 2020, popularity = Finite (221 / 4), vote_average = Finite (15 / 2),
       vote_count = IntVal 250, poster_path = Num NaN\<rparr>"
  "example_df ! Suc 0 = \<lparr>title = Str (asc ''Beta''), overview = Str (asc ''A loud film.''),
       year = 2020, popularity = Finite (221 / 4), vote_average = Finite (15 / 2),
       vote_count = IntVal 250, poster_path = Num NaN\<rparr>"
  "example_df ! 2 = \<lparr>title = Str (asc ''Gamma''), overview = Str (asc ''A long film.''),
       year = 2020, popularity = Finite (1 / 2), vote_average = Finite (17 / 2),
       vote_count = IntVal 3000, poster_path = Str (asc ''/gamma.jpg'')\<rparr>"
  by (simp_all add: example_df_def)

lemmas send_eval = example_df_nth example_env_def str_cell_def str_number_def fmt_eval
  slice_to_def

section \<open>The handlers on the example catalog\<close>

lemma py_float_9: "py_float (asc ''9'') = Some (Finite 9)"
  by (simp add: parse_eval num_eval)

lemma py_float_1e9: "py_float (asc ''1e9'') = Some (Finite 1000000000)"
  by (simp add: parse_eval num_eval)

lemma str_int_1899: "str_int 1899 = asc ''1899''"
  by (simp add: fmt_eval)

lemma filtered_year_1899: "filtered_year df 1899 = Inr (filter (\<lambda>m. year m = 1899) df)"
  by (rule filtered_year_filter [OF int_to_float_1899]) simp

lemma filtered_year_2020: "filtered_year df 2020 = Inr (filter (\<lambda>m. year m = 2020) df)"
  by (rule filtered_year_filter [OF int_to_float_2020]) simp

lemma example_filters:
  "filtered_rating example_df (Finite 9) = []"
  "filtered_year example_df 1899 = Inr []"
  "filtered_year example_df 2020 = Inr (drop 1 example_df)"
  "filtered_popularity example_df (Finite 1000000000) = []"
  "filtered_popularity example_df (Finite (- 5)) = example_df"
  by (simp_all add: filtered_rating_filter filtered_popularity_filter
      filtered_year_1899 filtered_year_2020 example_df_def fge_def fle_def)

lemma filtered_year_huge: "filtered_year df (10 ^ 309) = Inl OverflowError"
  by (rule filtered_year_overflow [OF int_to_float_huge])

lemma process_year_huge: "process_year E df rnd huge_year_text = Inl OverflowError"
  by (rule process_year_raises [OF py_int_huge filtered_year_huge])

lemma no_row_of_huge_year: "filter (\<lambda>m. year m = 10 ^ 309) example_df = []"
  by (simp add: example_df_def)

lemma process_year_1899:
  "process_year example_env example_df 0 (asc ''1899'') =
     Inr ([ReplyText (txt_year_1 @ asc ''1899'' @ txt_year_not_found_2) None False], YEAR)"
  using process_year_empty [OF py_int_1899 example_filters(2)] by (simp only: str_int_1899)

lemma example_df_nonempty: "example_df \<noteq> []"
  by (simp add: example_df_def)

lemma str_int_2020: "str_int 2020 = asc ''2020''"
  by (simp add: fmt_eval)

lemma fmt_1f_1e9: "fmt_1f (Finite 1000000000) = asc ''1000000000.0''"
  by (simp add: fmt_eval)

lemma fmt_1f_minus_5: "fmt_1f (Finite (- 5)) = asc ''-5.0''"
  by (simp add: fmt_eval)

lemma example_env_sel: "str_float example_env = fmt_1f" "str_float64 example_env = fmt_1f"
  "MAX_OVERVIEW_LENGTH example_env = 400"
  by (simp_all add: example_env_def)

text \<open>
  Claim C1, at a year beyond the range of a double. No row of the example catalog has the
  year \<open>10^309\<close>, so the rows that satisfy the predicate are none; the filter of line 153
  does not return them but raises \<open>OverflowError\<close>. At the year 2020 the same filter returns
  the rows of that year.
\<close>

theorem year_filter_overflow:
  "filtered_year example_df (10 ^ 309) = Inl OverflowError
   \<and> filter (\<lambda>m. year m = 10 ^ 309) example_df = []
   \<and> filtered_year example_df 2020 = Inr (filter (\<lambda>m. year m = 2020) example_df)"
  by (intro conjI filtered_year_huge no_row_of_huge_year filtered_year_2020)

text \<open>
  Claim C7, at a year beyond the range of a double. The text of the digit 1 and 309 zeros
  parses as the integer \<open>10^309\<close>, and no movie is of that year; \<open>process_year\<close> answers
  neither with the ``not found'' message nor with the corrective prompt: \<open>OverflowError\<close>
  leaves the handler. The year 1899, also without a movie, is answered with the ``not
  found'' message in the state \<open>YEAR\<close>.
\<close>

theorem huge_year_not_answered:
  "py_int huge_year_text = Some (10 ^ 309)
   \<and> process_year example_env example_df 0 huge_year_text = Inl OverflowError
   \<and> py_int (asc ''1899'') = Some 1899
   \<and> process_year example_env example_df 0 (asc ''1899'') =
       Inr ([ReplyText (txt_year_1 @ asc ''1899'' @ txt_year_not_found_2) None False], YEAR)"
  by (intro conjI py_int_huge process_year_huge py_int_1899 process_year_1899)

text \<open>The values -5 and 1e9 and a text that is no number, on the example catalog.\<close>

theorem popularity_validation_witness:
  "py_float (asc ''-5'') = Some (Finite (- 5))
   \<and> filtered_popularity example_df (Finite (- 5)) = example_df
   \<and> (\<exists>m \<in> set example_df.
         process_popularity example_env example_df 0 (asc ''-5'') =
           (case send_movie_info example_env True m
                   (txt_popularity_header @ asc ''-5.0'' @ asc '':'') of
              Inl e \<Rightarrow> Inl e | Inr sent \<Rightarrow> Inr (sent, END)))
   \<and> py_float (asc ''1e9'') = Some (Finite 1000000000)
   \<and> process_popularity example_env example_df 0 (asc ''1e9'') =
       Inr ([ReplyText (txt_popularity_1 @ asc ''1000000000.0'' @ txt_popularity_not_found_2)
               None False], POPULARITY)
   \<and> py_float (asc ''abc'') = None
   \<and> process_popularity example_env example_df 0 (asc ''abc'') =
       Inr ([ReplyText txt_popularity_not_number None False], POPULARITY)"
proof -
  have ne: "filtered_popularity example_df (Finite (- 5)) \<noteq> []"
    by (simp add: filtered_popularity_filter example_df_def fge_def fle_def)
  from popularity_validation [where ?text = "asc ''-5''" and ?E = example_env
      and ?df = example_df and ?rnd = 0] py_float_minus_5 ne
  have "\<exists>m \<in> set (filtered_popularity example_df (Finite (- 5))).
         process_popularity example_env example_df 0 (asc ''-5'') =
           (case send_movie_info example_env True m
                   (txt_popularity_header @ str_float example_env (Finite (- 5)) @ asc '':'') of
              Inl e \<Rightarrow> Inl e | Inr sent \<Rightarrow> Inr (sent, END))"
    by blast
  then have a: "\<exists>m \<in> set example_df.
         process_popularity example_env example_df 0 (asc ''-5'') =
           (case send_movie_info example_env True m
                   (txt_popularity_header @ asc ''-5.0'' @ asc '':'') of
              Inl e \<Rightarrow> Inl e | Inr sent \<Rightarrow> Inr (sent, END))"
    by (simp only: example_filters example_env_sel fmt_1f_minus_5)
  from popularity_validation [where ?text = "asc ''1e9''" and ?E = example_env
      and ?df = example_df and ?rnd = 0] py_float_1e9 example_filters(4)
  have "process_popularity example_env example_df 0 (asc ''1e9'') =
       Inr ([ReplyText (txt_popularity_1 @ str_float example_env (Finite 1000000000)
                        @ txt_popularity_not_found_2) None False], POPULARITY)"
    by blast
  then have b: "process_popularity example_env example_df 0 (asc ''1e9'') =
       Inr ([ReplyText (txt_popularity_1 @ asc ''1000000000.0'' @ txt_popularity_not_found_2)
               None False], POPULARITY)"
    by (simp only: example_env_sel fmt_1f_1e9)
  from popularity_validation [where ?text = "asc ''abc''" and ?E = example_env
      and ?df = example_df and ?rnd = 0] py_float_abc
  have c: "process_popularity example_env example_df 0 (asc ''abc'') =
       Inr ([ReplyText txt_popularity_not_number None False], POPULARITY)"
    by blast
  from a b c py_float_minus_5 py_float_1e9 py_float_abc example_filters(5)
  show ?thesis by blast
qed

section \<open>Sessions\<close>

text \<open>
  Claim C4, at a year beyond the range of a double. While a year is awaited, the text of
  the digit 1 and 309 zeros is a year without a movie; the update is not answered with the
  ``not found'' message: \<open>OverflowError\<close> leaves \<open>process_year\<close>. The year 1899 and the
  popularity 1e9, also without a movie, are answered with their ``not found'' message, and
  the state stays \<open>YEAR\<close> and \<open>POPULARITY\<close>.
\<close>

theorem huge_year_update_raises:
  "process_update example_env example_df 0 (asc ''Bob'') (Some YEAR) (TextMessage huge_year_text)
     = Inl OverflowError
   \<and> process_update example_env example_df 0 (asc ''Bob'') (Some YEAR) (TextMessage (asc ''1899''))
     = Inr ([ReplyText (txt_year_1 @ asc ''1899'' @ txt_year_not_found_2) None False], Some YEAR)
   \<and> process_update example_env example_df 0 (asc ''Bob'') (Some POPULARITY)
         (TextMessage (asc ''1e9''))
     = Inr ([ReplyText (txt_popularity_1 @ asc ''1000000000.0'' @ txt_popularity_not_found_2)
               None False], Some POPULARITY)"
proof (intro conjI)
  show "process_update example_env example_df 0 (asc ''Bob'') (Some YEAR)
          (TextMessage huge_year_text) = Inl OverflowError"
    by (simp add: process_update_text_year process_year_huge)
  show "process_update example_env example_df 0 (asc ''Bob'') (Some YEAR)
          (TextMessage (asc ''1899''))
     = Inr ([ReplyText (txt_year_1 @ asc ''1899'' @ txt_year_not_found_2) None False], Some YEAR)"
    by (simp add: process_update_text_year process_year_1899 update_state_simps)
  have "process_popularity example_env example_df 0 (asc ''1e9'') =
       Inr ([ReplyText (txt_popularity_1 @ asc ''1000000000.0'' @ txt_popularity_not_found_2)
               None False], POPULARITY)"
    using process_popularity_empty [OF py_float_1e9 example_filters(4), of example_env 0]
    by (simp only: example_env_sel fmt_1f_1e9)
  then show "process_update example_env example_df 0 (asc ''Bob'') (Some POPULARITY)
         (TextMessage (asc ''1e9''))
     = Inr ([ReplyText (txt_popularity_1 @ asc ''1000000000.0'' @ txt_popularity_not_found_2)
               None False], Some POPULARITY)"
    by (simp add: process_update_text_popularity update_state_simps)
qed

text \<open>
  Claim C5, as the code has it. \<open>/cancel\<close> is a fallback of the conversation handler and
  of nothing else. In every open conversation it sends the acknowledgment and closes the
  conversation. With no conversation open no handler accepts it: nothing is sent and the
  state stays closed. From the closed state a tap on \<open>random\<close> picks a movie of the
  catalog and, the movie having an overview text, presents it; no conversation is opened.
\<close>

theorem cancel_closes_open_conversation:
  "process_update E df rnd first_name (Some s) (Command (asc ''cancel'')) =
     Inr ([ReplyText txt_cancelled None False], None)
   \<and> process_update E df rnd first_name None (Command (asc ''cancel'')) = Inr ([], None)
   \<and> (df \<noteq> [] \<and> m = df ! (rnd mod length df) \<and> overview m = Str ov \<longrightarrow>
        m \<in> set df
        \<and> process_update E df rnd first_name None (CallbackQuery (asc ''random'')) =
            Inr ([Answer,
                  ReplyText
                    (txt_random_header @ txt_info_title @ str_cell E (title m) @ txt_info_year
                     @ str_int (year m) @ txt_info_rating @ str_float64 E (vote_average m)
                     @ txt_info_votes @ str_number E (vote_count m) @ txt_info_popularity
                     @ fmt_1f (popularity m) @ txt_info_end @ txt_overview_open
                     @ (if MAX_OVERVIEW_LENGTH E < int (length ov)
                        then slice_to ov (MAX_OVERVIEW_LENGTH E) @ asc ''...'' else ov)
                     @ txt_overview_close
                     @ (case poster_path m of
                          Str p \<Rightarrow> txt_poster_open @ p @ txt_poster_close | _ \<Rightarrow> []))
                    (Some movie_keyboard) True], None))"
proof (intro conjI impI)
  assume a: "df \<noteq> [] \<and> m = df ! (rnd mod length df) \<and> overview m = Str ov"
  then have ne: "df \<noteq> []" and m: "m = df ! (rnd mod length df)"
    and ov: "overview m = Str ov"
    by blast+
  from ne m show "m \<in> set df" by simp
  from ne m have "sample1 rnd df = Inr m" by (simp add: sample1_def)
  with ne have "random_movie E df rnd =
      (case send_movie_info E True m txt_random_header of
         Inl e \<Rightarrow> Inl e | Inr sent \<Rightarrow> Inr (Answer # sent))"
    by (simp add: random_movie_def)
  then show "process_update E df rnd first_name None (CallbackQuery (asc ''random'')) =
            Inr ([Answer,
                  ReplyText
                    (txt_random_header @ txt_info_title @ str_cell E (title m) @ txt_info_year
                     @ str_int (year m) @ txt_info_rating @ str_float64 E (vote_average m)
                     @ txt_info_votes @ str_number E (vote_count m) @ txt_info_popularity
                     @ fmt_1f (popularity m) @ txt_info_end @ txt_overview_open
                     @ (if MAX_OVERVIEW_LENGTH E < int (length ov)
                        then slice_to ov (MAX_OVERVIEW_LENGTH E) @ asc ''...'' else ov)
                     @ txt_overview_close
                     @ (case poster_path m of
                          Str p \<Rightarrow> txt_poster_open @ p @ txt_poster_close | _ \<Rightarrow> []))
                    (Some movie_keyboard) True], None)"
    by (simp add: process_update_random send_movie_info_text [OF ov])
qed (simp_all add: process_update_cancel)

text \<open>\<open>/cancel\<close> with no conversation open: no acknowledgment is sent.\<close>

theorem cancel_in_idle_counterexample:
  "process_update example_env example_df 0 (asc ''Bob'') None (Command (asc ''cancel''))
     = Inr ([], None)
   \<and> process_update example_env example_df 0 (asc ''Bob'') None (Command (asc ''cancel''))
     \<noteq> Inr ([ReplyText txt_cancelled None False], None)"
  by (simp add: process_update_cancel)

text \<open>
  \<open>/cancel\<close> while a year is awaited, then \<open>random\<close>, on the example catalog: the second
  movie is picked and presented.
\<close>

theorem cancel_closes_open_conversation_witness:
  "process_update example_env example_df 4 (asc ''Bob'') (Some YEAR) (Command (asc ''cancel'')) =
     Inr ([ReplyText txt_cancelled None False], None)
   \<and> example_df \<noteq> []
   \<and> example_df ! 1 = example_df ! (4 mod length example_df)
   \<and> overview (example_df ! 1) = Str (asc ''A loud film.'')
   \<and> example_df ! 1 \<in> set example_df
   \<and> process_update example_env example_df 4 (asc ''Bob'') None (CallbackQuery (asc ''random'')) =
       Inr ([Answer,
             ReplyText
               (txt_random_header @ txt_info_title @ asc ''Beta'' @ txt_info_year @ asc ''2020''
                @ txt_info_rating @ asc ''7.5'' @ txt_info_votes @ asc ''250''
                @ txt_info_popularity @ asc ''55.2'' @ txt_info_end @ txt_overview_open
                @ asc ''A loud film.'' @ txt_overview_close)
               (Some movie_keyboard) True], None)"
proof -
  have h: "example_df \<noteq> []" "example_df ! 1 = example_df ! (4 mod length example_df)"
    "overview (example_df ! 1) = Str (asc ''A loud film.'')"
    by (simp_all add: example_df_def)
  note t = cancel_closes_open_conversation [where ?E = example_env and ?df = example_df
      and ?rnd = 4 and ?first_name = "asc ''Bob''" and ?s = YEAR and ?m = "example_df ! 1"
      and ?ov = "asc ''A loud film.''"]
  from t have a: "process_update example_env example_df 4 (asc ''Bob'') (Some YEAR)
      (Command (asc ''cancel'')) = Inr ([ReplyText txt_cancelled None False], None)"
    by blast
  from t h have b: "example_df ! 1 \<in> set example_df" by blast
  from t h have "process_update example_env example_df 4 (asc ''Bob'') None
      (CallbackQuery (asc ''random'')) =
            Inr ([Answer,
                  ReplyText
                    (txt_random_header @ txt_info_title
                     @ str_cell example_env (title (example_df ! 1)) @ txt_info_year
                     @ str_int (year (example_df ! 1)) @ txt_info_rating
                     @ str_float64 example_env (vote_average (example_df ! 1))
                     @ txt_info_votes @ str_number example_env (vote_count (example_df ! 1))
                     @ txt_info_popularity
                     @ fmt_1f (popularity (example_df ! 1)) @ txt_info_end @ txt_overview_open
                     @ (if MAX_OVERVIEW_LENGTH example_env < int (length (asc ''A loud film.''))
                        then slice_to (asc ''A loud film.'') (MAX_OVERVIEW_LENGTH example_env)
                             @ asc ''...''
                        else asc ''A loud film.'')
                     @ txt_overview_close
                     @ (case poster_path (example_df ! 1) of
                          Str p \<Rightarrow> txt_poster_open @ p @ txt_poster_close | _ \<Rightarrow> []))
                    (Some movie_keyboard) True], None)"
    by blast
  then have c: "process_update example_env example_df 4 (asc ''Bob'') None
      (CallbackQuery (asc ''random'')) =
       Inr ([Answer,
             ReplyText
               (txt_random_header @ txt_info_title @ asc ''Beta'' @ txt_info_year @ asc ''2020''
                @ txt_info_rating @ asc ''7.5'' @ txt_info_votes @ asc ''250''
                @ txt_info_popularity @ asc ''55.2'' @ txt_info_end @ txt_overview_open
                @ asc ''A loud film.'' @ txt_overview_close)
               (Some movie_keyboard) True], None)"
    by (simp add: send_eval)
  from a b c h show ?thesis by blast
qed

text \<open>
  Claim C6. Whatever the state of the conversation, a tap on \<open>rating\<close>, \<open>year\<close> or
  \<open>popularity\<close> is answered with the prompt of that criterion, without an error, and the
  state becomes the one of that criterion alone; the next text is then handled by the
  handler of the new state.
\<close>

theorem reentry_replaces_session:
  "process_update E df rnd first_name state (CallbackQuery (asc ''rating'')) =
     Inr (fst (choose_rating E df), Some RATING)
   \<and> process_update E df rnd first_name state (CallbackQuery (asc ''year'')) =
     Inr ([Answer, EditText txt_ask_year None False], Some YEAR)
   \<and> process_update E df rnd first_name state (CallbackQuery (asc ''popularity'')) =
     Inr ([Answer, EditText txt_ask_popularity None False], Some POPULARITY)
   \<and> process_update E df rnd first_name (Some RATING) (TextMessage t) =
     (case process_rating E df rnd t of
        Inl e \<Rightarrow> Inl e | Inr (sent, new_state) \<Rightarrow> Inr (sent, update_state new_state))
   \<and> process_update E df rnd first_name (Some YEAR) (TextMessage t) =
     (case process_year E df rnd t of
        Inl e \<Rightarrow> Inl e | Inr (sent, new_state) \<Rightarrow> Inr (sent, update_state new_state))
   \<and> process_update E df rnd first_name (Some POPULARITY) (TextMessage t) =
     (case process_popularity E df rnd t of
        Inl e \<Rightarrow> Inl e | Inr (sent, new_state) \<Rightarrow> Inr (sent, update_state new_state))"
  by (simp add: process_update_select process_update_text_rating process_update_text_year
      process_update_text_popularity)

text \<open>
  A tap on \<open>year\<close> while a rating is awaited; the text 1899 then counts as a year, where in
  the state \<open>RATING\<close> it is a rating out of range.
\<close>

theorem reentry_replaces_session_witness:
  "process_update example_env example_df 0 (asc ''Bob'') (Some RATING) (CallbackQuery (asc ''year''))
     = Inr ([Answer, EditText txt_ask_year None False], Some YEAR)
   \<and> process_update example_env example_df 0 (asc ''Bob'') (Some YEAR) (TextMessage (asc ''1899''))
     = Inr ([ReplyText (txt_year_1 @ asc ''1899'' @ txt_year_not_found_2) None False], Some YEAR)
   \<and> process_update example_env example_df 0 (asc ''Bob'') (Some RATING) (TextMessage (asc ''1899''))
     = Inr ([ReplyText (txt_rating_range_1 @ asc ''3.0'' @ txt_rating_range_2 @ asc ''8.5'')
               None False], Some RATING)"
proof -
  have y: "process_year example_env example_df 0 (asc ''1899'') =
       Inr ([ReplyText (txt_year_1 @ asc ''1899'' @ txt_year_not_found_2) None False], YEAR)"
    by (rule process_year_1899)
  have "py_float (asc ''1899'') = Some (Finite 1899)"
    by (simp add: parse_eval num_eval)
  moreover have "\<not> (fle (col_min example_env (map vote_average example_df)) (Finite 1899)
                     \<and> fle (Finite 1899) (col_max example_env (map vote_average example_df)))"
    by (simp add: example_bounds fle_def)
  ultimately have r: "process_rating example_env example_df 0 (asc ''1899'') =
       Inr ([ReplyText (txt_rating_range_1 @ asc ''3.0'' @ txt_rating_range_2 @ asc ''8.5'')
               None False], RATING)"
    using process_rating_outside [where ?text = "asc ''1899''" and ?r = "Finite 1899"
        and ?df = example_df and ?E = example_env and ?rnd = 0]
    by (simp add: example_bounds fmt_1f_abs_3 fmt_1f_abs_8_5)
  from reentry_replaces_session [of example_env example_df 0 "asc ''Bob''" "Some RATING"
      "asc ''1899''"]
  show ?thesis by (simp add: y r update_state_simps)
qed

section \<open>A row without an overview\<close>

lemma example_df_gap_nth:
  "example_df_gap ! 0 = example_df ! 0"
  "example_df_gap ! 3 = \<lparr>title = Str (asc ''Delta''), overview = Num NaN, year = 2021,
       popularity = Finite 4, vote_average = Finite 6, vote_count = IntVal 12,
       poster_path = Str (asc ''/delta.jpg'')\<rparr>"
  "length example_df_gap = 4"
  by (simp_all add: example_df_gap_def example_df_def)

text \<open>
  Claim C9, on a row without an overview. The last row of \<open>example_df_gap\<close> has \<open>NaN\<close> for
  its overview, as \<open>read_csv\<close> gives it for an empty field. When that row is picked,
  \<open>len(overview)\<close> at line 192 raises \<open>TypeError\<close> and nothing is presented, neither by the
  presenter nor by the handler of \<open>random\<close> that called it. The first row of the same
  catalog, which has an overview, is presented with its title, year, rating, vote count,
  popularity, overview and poster reference.
\<close>

theorem missing_overview_raises:
  "overview (example_df_gap ! 3) = Num NaN
   \<and> sample1 3 example_df_gap = Inr (example_df_gap ! 3)
   \<and> send_movie_info example_env True (example_df_gap ! 3) txt_random_header = Inl TypeError
   \<and> random_movie example_env example_df_gap 3 = Inl TypeError
   \<and> process_update example_env example_df_gap 3 (asc ''Bob'') None
         (CallbackQuery (asc ''random'')) = Inl TypeError
   \<and> send_movie_info example_env True (example_df_gap ! 0) txt_random_header =
       Inr [ReplyText
              (txt_random_header @ txt_info_title @ asc ''Alpha'' @ txt_info_year @ asc ''1999''
               @ txt_info_rating @ asc ''3.0'' @ txt_info_votes @ asc ''10''
               @ txt_info_popularity @ asc ''10.5'' @ txt_info_end @ txt_overview_open
               @ asc ''A quiet film.'' @ txt_overview_close
               @ txt_poster_open @ asc ''/alpha.jpg'' @ txt_poster_close)
              (Some movie_keyboard) True]"
proof -
  have o: "overview (example_df_gap ! 3) = Num NaN"
    by (simp add: example_df_gap_nth)
  have s: "sample1 3 example_df_gap = Inr (example_df_gap ! 3)"
    using example_df_gap_nth(3) by (auto simp add: sample1_def)
  have e: "send_movie_info example_env True (example_df_gap ! 3) txt_random_header
             = Inl TypeError"
    by (rule send_movie_info_no_overview) (simp add: o is_str_def)
  have ne: "example_df_gap \<noteq> []"
    using example_df_gap_nth(3) by auto
  from ne have r: "random_movie example_env example_df_gap 3 = Inl TypeError"
    by (simp add: random_movie_def s e)
  have p: "process_update example_env example_df_gap 3 (asc ''Bob'') None
         (CallbackQuery (asc ''random'')) = Inl TypeError"
    by (simp add: process_update_random r)
  have "overview (example_df ! 0) = Str (asc ''A quiet film.'')"
    by (simp add: example_df_nth)
  from send_movie_info_text [OF this, of example_env True txt_random_header]
  have a: "send_movie_info example_env True (example_df_gap ! 0) txt_random_header =
       Inr [ReplyText
              (txt_random_header @ txt_info_title @ asc ''Alpha'' @ txt_info_year @ asc ''1999''
               @ txt_info_rating @ asc ''3.0'' @ txt_info_votes @ asc ''10''
               @ txt_info_popularity @ asc ''10.5'' @ txt_info_end @ txt_overview_open
               @ asc ''A quiet film.'' @ txt_overview_close
               @ txt_poster_open @ asc ''/alpha.jpg'' @ txt_poster_close)
              (Some movie_keyboard) True]"
    by (simp add: example_df_gap_nth(1) send_eval)
  from o s e r p a show ?thesis by blast
qed

end
